theory Spec2Isabelle
  imports Complex_Main "HOL-Library.AList"
begin

section \<open>Numbers and rounding (reportCalculationService.js, settingsController.js)\<close>

text \<open>
  A JavaScript number is an IEEE 754 double.  A finite double is a rational
  number, and the model computes in \<^typ>\<open>rat\<close>: every arithmetic operation
  of the source is the exact operation followed by \<open>to_double\<close>, the rounding
  to the nearest double (a tie goes to the even significand; below
  \<open>2\<^sup>-\<^sup>1\<^sup>0\<^sup>2\<^sup>2\<close> the doubles are the multiples of \<open>2\<^sup>-\<^sup>1\<^sup>0\<^sup>7\<^sup>4\<close>).  A number in a
  request body or in a stored document stands for the double that it is
  read as: \<open>Number\<close> and \<open>parseFloat\<close> are \<open>to_double\<close>, the identity on a
  double, so that the amount written 1250.30 is the double next to it.

  The values \<open>NaN\<close> and \<open>Infinity\<close> have no counterpart in \<^typ>\<open>rat\<close>; where
  the source tests for them (\<open>isNaN\<close>, \<open>isFinite\<close>) the model carries an
  explicit case for an input that does not parse.  A result of \<open>2\<^sup>1\<^sup>0\<^sup>2\<^sup>4\<close> or
  more, which is \<open>Infinity\<close> in JavaScript, stays finite here, and a division
  by 0 yields 0; the theorems on amounts bound their inputs away from both.
  The two zeros of a double are one.  A field that is \<open>undefined\<close> or \<open>null\<close>
  is \<open>None\<close>.
\<close>

definition pow2 :: "int \<Rightarrow> rat" where
  "pow2 k = (if 0 \<le> k then 2 ^ nat k else 1 / 2 ^ nat (- k))"

function bit_length :: "int \<Rightarrow> int" where
  \<comment> \<open>the number of binary digits of a positive integer\<close>
  "bit_length n = (if n \<le> 0 then 0 else 1 + bit_length (n div 2))"
  by pat_completeness auto
termination
  by (relation "measure nat") auto

declare bit_length.simps [simp del]

definition binary_exponent :: "rat \<Rightarrow> int" where
  \<comment> \<open>for \<open>x \<noteq> 0\<close> the \<open>e\<close> with \<open>2\<^sup>e \<le> |x| < 2\<^sup>e\<^sup>+\<^sup>1\<close>\<close>
  "binary_exponent x =
     (let (p, q) = quotient_of \<bar>x\<bar>;
          k = bit_length p - bit_length q
      in if pow2 k \<le> \<bar>x\<bar> then k else k - 1)"

definition round_half_even :: "rat \<Rightarrow> int" where
  "round_half_even m =
     (let f = \<lfloor>m\<rfloor>; d = m - of_int f
      in if d < 1 / 2 then f else if 1 / 2 < d then f + 1
         else if even f then f else f + 1)"

definition to_double :: "rat \<Rightarrow> rat" where
  \<comment> \<open>the nearest multiple of the spacing of the doubles at \<open>x\<close>: a significand
      of 53 binary digits, and the smallest exponent \<open>-1022\<close>\<close>
  "to_double x =
     (if x = 0 then 0
      else (let e = max (binary_exponent x) (- 1022);
                q = pow2 (e - 52)
            in of_int (round_half_even (x / q)) * q))"

definition js_add :: "rat \<Rightarrow> rat \<Rightarrow> rat" where
  "js_add a b = to_double (a + b)"

definition js_sub :: "rat \<Rightarrow> rat \<Rightarrow> rat" where
  "js_sub a b = to_double (a - b)"

definition js_mul :: "rat \<Rightarrow> rat \<Rightarrow> rat" where
  "js_mul a b = to_double (a * b)"

definition js_div :: "rat \<Rightarrow> rat \<Rightarrow> rat" where
  "js_div a b = to_double (a / b)"

definition NUMBER_EPSILON :: rat where
  "NUMBER_EPSILON = 1 / 2 ^ 52"

definition Math_round :: "rat \<Rightarrow> int" where
  \<comment> \<open>\<open>Math.round\<close>: the nearest integer, a tie going towards \<open>+\<infinity>\<close>.\<close>
  "Math_round x = \<lfloor>x + 1 / 2\<rfloor>"

definition round2 :: "rat \<Rightarrow> rat" where
  \<comment> \<open>\<open>Math.round((Number(number) + Number.EPSILON) * 100) / 100\<close>\<close>
  "round2 n = js_div (of_int (Math_round (js_mul (js_add n NUMBER_EPSILON) 100))) 100"

definition toFixed2 :: "rat \<Rightarrow> rat" where
  \<comment> \<open>\<open>Number(x.toFixed(2))\<close>: \<open>toFixed\<close> works on the absolute value of the
      double, picks the nearest multiple of 0.01 and, on a tie, the larger
      one; from \<open>10\<^sup>2\<^sup>1\<close> on it prints the number itself.  \<open>Number\<close> reads the
      digits back as a double.\<close>
  "toFixed2 x =
     (if 10 ^ 21 \<le> \<bar>x\<bar> then x
      else if x < 0 then - to_double (of_int \<lfloor>(- x) * 100 + 1 / 2\<rfloor> / 100)
      else to_double (of_int \<lfloor>x * 100 + 1 / 2\<rfloor> / 100))"

definition num :: "rat option \<Rightarrow> rat" where
  \<comment> \<open>\<open>parseFloat(v ?? 0)\<close>, and 0 when the result is not finite\<close>
  "num v = (case v of None \<Rightarrow> 0 | Some n \<Rightarrow> to_double n)"

definition orZero :: "rat option \<Rightarrow> rat" where
  \<comment> \<open>\<open>v || 0\<close> and \<open>v ?? 0\<close> for a number or a missing value\<close>
  "orZero v = (case v of None \<Rightarrow> 0 | Some n \<Rightarrow> n)"

text \<open>
  \<open>parseInt\<close> reads the decimal digits at the head of the string of its
  argument.  A double from \<open>10\<^sup>-\<^sup>6\<close> up to \<open>10\<^sup>2\<^sup>1\<close> prints in positional
  notation, and \<open>parseInt\<close> yields its integer part.  Any other double prints
  in exponent notation, as the shortest decimal that reads back as the same
  double, and \<open>parseInt\<close> yields the leading digit: \<open>parseInt(1e21)\<close> is 1 and
  \<open>parseInt(5e-7)\<close> is 5.
\<close>

function decimal_digits :: "int \<Rightarrow> int" where
  \<comment> \<open>the number of decimal digits of a positive integer\<close>
  "decimal_digits n = (if n \<le> 0 then 0 else 1 + decimal_digits (n div 10))"
  by pat_completeness auto
termination
  by (relation "measure nat") auto

declare decimal_digits.simps [simp del]

definition pow10 :: "int \<Rightarrow> rat" where
  "pow10 k = (if 0 \<le> k then 10 ^ nat k else 1 / 10 ^ nat (- k))"

definition decimal_exponent :: "rat \<Rightarrow> int" where
  \<comment> \<open>for \<open>a > 0\<close> the \<open>m\<close> with \<open>10\<^sup>m \<le> a < 10\<^sup>m\<^sup>+\<^sup>1\<close>\<close>
  "decimal_exponent a =
     (if 1 \<le> a then decimal_digits \<lfloor>a\<rfloor> - 1
      else (let j = decimal_digits \<lfloor>1 / a\<rfloor> - 1
            in if a = pow10 (- j) then - j else - j - 1))"

definition leading_digit :: "rat \<Rightarrow> int" where
  \<comment> \<open>the first digit of the shortest decimal that reads back as the double
      \<open>a > 0\<close>: the first digit of \<open>a\<close>, or the next one when already that
      digit alone, followed by zeros, reads back as \<open>a\<close>\<close>
  "leading_digit a =
     (let m = decimal_exponent a;
          d = \<lfloor>a / pow10 m\<rfloor>
      in if to_double (of_int (d + 1) * pow10 m) = a
         then (if d = 9 then 1 else d + 1)
         else d)"

definition parseInt :: "rat \<Rightarrow> rat" where
  \<comment> \<open>\<open>parseInt(x, 10)\<close> for a finite double \<open>x\<close>\<close>
  "parseInt x =
     (if x = 0 then 0
      else if to_double (1 / 10 ^ 6) \<le> \<bar>x\<bar> \<and> \<bar>x\<bar> < 10 ^ 21
        then sgn x * of_int \<lfloor>\<bar>x\<bar>\<rfloor>
      else sgn x * of_int (leading_digit \<bar>x\<bar>))"

text \<open>
  The trip count of a report: \<open>undefined\<close>, \<open>null\<close>, or a number.  The two
  missing values differ in \<open>canSubmit\<close>, where \<open>null >= 0\<close> holds and
  \<open>undefined >= 0\<close> does not.
\<close>

datatype count_field = Undefined | Null | Count rat

definition int_js :: "count_field \<Rightarrow> rat" where
  \<comment> \<open>\<open>parseInt(v ?? 0, 10)\<close>, and 0 when the result is not finite\<close>
  "int_js v = (case v of Count n \<Rightarrow> parseInt (to_double n) | _ \<Rightarrow> 0)"


section \<open>Driver reports (models/DriverReport.js)\<close>

record amount_photo =
  amount :: "rat option"
  photoUrl :: "string option"

datatype report_status = R_draft | R_submitted | R_approved | R_rejected | R_archived

text \<open>The \<open>calculations\<close> sub-document of the schema: seven amounts and the rate used.\<close>

record stored_calculations =
  c_shiftTotalFares :: rat
  c_totalFareAndLiftings :: rat
  c_rentals :: rat
  c_subTotal :: rat
  c_tripLevy :: rat
  c_driverNetPay :: rat
  c_operatorEarnings :: rat
  c_rentalRateUsed :: rat

record report =
  reportStatus :: report_status
  shiftStartTotal :: amount_photo
  shiftEndTotal :: amount_photo
  liftings :: "rat option"
  cashFares :: "rat option"
  totalEFTPOS :: amount_photo
  totalAccountTrips :: "rat option"
  cashExpenses :: amount_photo
  totalTripsCount :: count_field
  calculations :: stored_calculations
  submittedAt :: "nat option"

definition truthy_string :: "string option \<Rightarrow> bool" where
  \<comment> \<open>\<open>!!s\<close> for a string field: present and not empty\<close>
  "truthy_string s = (case s of None \<Rightarrow> False | Some t \<Rightarrow> t \<noteq> [])"

definition canEdit :: "report \<Rightarrow> bool" where
  "canEdit r = (reportStatus r = R_draft)"



section \<open>Reconciliation formulas (services/reportCalculationService.js)\<close>

record settings =
  rentalRatePercentage :: rat
  tripLevyRate :: rat

definition DEFAULT_SETTINGS :: settings where
  \<comment> \<open>the literal \<open>1.32\<close> is the double next to it\<close>
  "DEFAULT_SETTINGS = \<lparr> rentalRatePercentage = 45, tripLevyRate = to_double (132 / 100) \<rparr>"

record stored_settings =
  s_rentalRatePercentage :: "rat option"
  s_tripLevyRate :: "rat option"

definition getCalculationSettings :: "stored_settings option \<Rightarrow> settings" where
  \<comment> \<open>the settings document merged over the defaults; \<open>None\<close> when the store
      holds none or the read fails\<close>
  "getCalculationSettings s =
    (case s of
       None \<Rightarrow> DEFAULT_SETTINGS
     | Some d \<Rightarrow>
        \<lparr> rentalRatePercentage =
            (case s_rentalRatePercentage d of Some v \<Rightarrow> v
             | None \<Rightarrow> rentalRatePercentage DEFAULT_SETTINGS),
          tripLevyRate =
            (case s_tripLevyRate d of Some v \<Rightarrow> v
             | None \<Rightarrow> tripLevyRate DEFAULT_SETTINGS) \<rparr>)"

record breakdown =
  shiftStart :: rat
  shiftEnd :: rat
  shiftDifference :: rat
  b_liftings :: rat
  b_cashFares :: rat
  b_totalEFTPOS :: rat
  b_totalAccountTrips :: rat
  b_cashExpenses :: rat
  b_totalTripsCount :: rat

text \<open>
  The object that \<open>calculateReportTotals\<close> returns.  The time stamp
  \<open>calculatedAt\<close> and the two display strings of the breakdown
  (\<open>rentalRate\<close>, \<open>tripLevyRate\<close>) carry no amount and are left out.
\<close>

record calc_result =
  shiftTotalFares :: rat
  totalFareAndLiftings :: rat
  rentals :: rat
  subTotal :: rat
  tripLevy :: rat
  driverNetPay :: rat
  operatorEarnings :: rat
  rentalRateUsed :: rat
  partial :: bool
  breakdown :: breakdown

definition canCalculateTotals :: "report option \<Rightarrow> bool" where
  \<comment> \<open>\<open>num\<close> has already replaced every non-finite value by 0, so both
      \<open>isFinite\<close> tests hold\<close>
  "canCalculateTotals reportData =
    (case reportData of
       None \<Rightarrow> False
     | Some r \<Rightarrow>
        (let start = num (amount (shiftStartTotal r));
             end = num (amount (shiftEndTotal r))
         in end \<ge> start))"

definition zeroCalcs :: "settings \<Rightarrow> breakdown \<Rightarrow> calc_result" where
  \<comment> \<open>the second argument is the zeroed breakdown with \<open>breakdownOverrides\<close>
      spread over it; the caller overrides every entry but \<open>shiftDifference\<close>\<close>
  "zeroCalcs st breakdownOverrides =
    \<lparr> shiftTotalFares = 0, totalFareAndLiftings = 0, rentals = 0, subTotal = 0,
      tripLevy = 0, driverNetPay = 0, operatorEarnings = 0,
      rentalRateUsed = rentalRatePercentage st,
      partial = True,
      breakdown = breakdownOverrides \<rparr>"

definition calculateReportTotals ::
  "report option \<Rightarrow> settings \<Rightarrow> bool \<Rightarrow> string + calc_result" where
  \<comment> \<open>\<open>Inl m\<close>: the function throws \<open>Error(m)\<close>.  The third argument is
      \<open>options.allowPartial\<close>, \<open>False\<close> when the caller passes no options.\<close>
  "calculateReportTotals reportData st allowPartial =
    (case reportData of
       None \<Rightarrow> Inl ''Failed to calculate report totals: Invalid report data provided''
     | Some r \<Rightarrow>
        (let shiftStartTotal' = num (amount (shiftStartTotal r));
             shiftEndTotal' = num (amount (shiftEndTotal r));
             liftings' = num (liftings r);
             cashFares' = num (cashFares r);
             totalEFTPOS' = num (amount (totalEFTPOS r));
             totalAccountTrips' = num (totalAccountTrips r);
             cashExpenses' = num (amount (cashExpenses r));
             totalTripsCount' = int_js (totalTripsCount r)
         in
         if \<not> canCalculateTotals reportData then
           (if allowPartial then
              Inr (zeroCalcs st
                \<lparr> shiftStart = shiftStartTotal', shiftEnd = shiftEndTotal',
                  shiftDifference = 0,
                  b_liftings = liftings', b_cashFares = cashFares',
                  b_totalEFTPOS = totalEFTPOS',
                  b_totalAccountTrips = totalAccountTrips',
                  b_cashExpenses = cashExpenses',
                  b_totalTripsCount = totalTripsCount' \<rparr>)
            else if shiftEndTotal' < shiftStartTotal' then
              Inl ''Failed to calculate report totals: Shift end total cannot be less than shift start total''
            else
              Inl ''Failed to calculate report totals: Insufficient data to calculate totals'')
         else
           (let shiftTotalFares' = js_sub shiftEndTotal' shiftStartTotal';
                totalFareAndLiftings' = js_add (js_add shiftTotalFares' liftings') cashFares';
                rentals' = js_div (js_mul totalFareAndLiftings' (rentalRatePercentage st)) 100;
                subTotal' = js_sub rentals'
                              (js_add (js_add totalEFTPOS' totalAccountTrips') cashExpenses');
                tripLevy' = js_mul totalTripsCount' (tripLevyRate st);
                driverNetPay' = - js_add subTotal' tripLevy';
                operatorEarnings' = js_sub totalFareAndLiftings' rentals'
            in Inr
              \<lparr> shiftTotalFares = round2 shiftTotalFares',
                totalFareAndLiftings = round2 totalFareAndLiftings',
                rentals = round2 rentals',
                subTotal = round2 subTotal',
                tripLevy = round2 tripLevy',
                driverNetPay = round2 driverNetPay',
                operatorEarnings = round2 operatorEarnings',
                rentalRateUsed = rentalRatePercentage st,
                partial = False,
                breakdown =
                  \<lparr> shiftStart = shiftStartTotal', shiftEnd = shiftEndTotal',
                    shiftDifference = shiftTotalFares',
                    b_liftings = liftings', b_cashFares = cashFares',
                    b_totalEFTPOS = totalEFTPOS',
                    b_totalAccountTrips = totalAccountTrips',
                    b_cashExpenses = cashExpenses',
                    b_totalTripsCount = totalTripsCount' \<rparr> \<rparr>)))"

definition validateCalculations :: "calc_result \<Rightarrow> report \<Rightarrow> string list" where
  \<comment> \<open>the list \<open>errors\<close>; \<open>isValid\<close> is \<open>errors.length === 0\<close>.  The last check
      is \<open>(inputData.totalTripsCount ?? 0) < 0\<close>, on the count as stored.\<close>
  "validateCalculations c inputData =
    (if shiftTotalFares c < 0 then [''Shift total fares cannot be negative''] else []) @
    (if totalFareAndLiftings c < 0 then [''Total fare and liftings cannot be negative''] else []) @
    (if rentals c > totalFareAndLiftings c then [''Rentals cannot exceed total fare and liftings''] else []) @
    (if (case totalTripsCount inputData of Count n \<Rightarrow> n < 0 | _ \<Rightarrow> False)
     then [''Total trips count cannot be negative''] else [])"

definition isValid :: "string list \<Rightarrow> bool" where
  "isValid errors = (length errors = 0)"

text \<open>The seven amounts of a report that the calculation reads.\<close>

definition amounts :: "report \<Rightarrow> rat list" where
  "amounts r =
    [num (amount (shiftStartTotal r)), num (amount (shiftEndTotal r)),
     num (liftings r), num (cashFares r), num (amount (totalEFTPOS r)),
     num (totalAccountTrips r), num (amount (cashExpenses r))]"


section \<open>Responses\<close>

text \<open>
  Every controller answers with \<open>success: true\<close> or with an error.  An error
  carries the \<open>code\<close> of the JSON body; the shift controller sends only a
  message, which is \<open>NO_CODE\<close> here.  An exception that reaches \<open>next(e)\<close> is
  answered by \<open>errorHandler\<close> with \<open>err.code\<close>, or with \<open>INTERNAL_ERROR\<close> when
  the exception has none (a \<open>TypeError\<close>, a Mongoose \<open>ValidationError\<close>, the
  \<open>Error\<close> of the calculation service).  HTTP status numbers are left out.
\<close>

datatype error_code =
    VALIDATION_ERROR
  | NOT_FOUND
  | FORBIDDEN
  | INVALID_TRANSITION
  | INVALID_STATUS
  | RIDE_NOT_STARTED
  | ALREADY_STARTED
  | NO_ACTIVE_SHIFT
  | NEW_CLIENTS_NOT_ALLOWED
  | INVALID_DESTINATION
  | INVALID_CLIENTS
  | INVALID_REASON
  | INVALID_DRIVER
  | DRIVER_NOT_FREE
  | RIDE_NOT_FOUND
  | NOT_QUICK_TRIP
  | REPORT_NOT_FOUND
  | REPORT_NOT_EDITABLE
  | REPORT_INCOMPLETE
  | CALCULATION_ERROR "string list"
  | NO_CODE string
  | INTERNAL_ERROR string

datatype response = Success | Failure error_code


section \<open>Report controller (controllers/driverReportController.js)\<close>

definition min0 :: "rat option \<Rightarrow> bool" where
  \<comment> \<open>the schema validator \<open>min: 0\<close>; validators do not run on \<open>undefined\<close>\<close>
  "min0 v = (case v of None \<Rightarrow> True | Some x \<Rightarrow> x \<ge> 0)"

definition photoValid :: "bool \<Rightarrow> string option \<Rightarrow> bool" where
  \<comment> \<open>the \<open>photoUrl\<close> validators: when the photo is needed, \<open>v && v.length > 0\<close>\<close>
  "photoValid needed v = (case v of None \<Rightarrow> True | Some s \<Rightarrow> needed \<longrightarrow> s \<noteq> [])"

definition validateReport :: "report \<Rightarrow> bool" where
  \<comment> \<open>the validators of \<open>driverReportSchema\<close> over the paths modelled here, as
      \<open>report.save()\<close> runs them: \<open>required\<close> and \<open>min\<close> on the amounts, the
      end-not-below-start validator \<open>v >= this.shiftStartTotal?.amount || 0\<close>,
      the photo validators, and \<open>required\<close>, \<open>min\<close> and \<open>Number.isInteger\<close> on the
      trip count\<close>
  "validateReport r =
    ((case amount (shiftStartTotal r) of None \<Rightarrow> False | Some v \<Rightarrow> v \<ge> 0) \<and>
     (case amount (shiftEndTotal r) of
        None \<Rightarrow> False
      | Some v \<Rightarrow> v \<ge> 0 \<and>
          (case amount (shiftStartTotal r) of None \<Rightarrow> False | Some s \<Rightarrow> v \<ge> s)) \<and>
     photoValid (reportStatus r = R_submitted \<or> reportStatus r = R_approved)
       (photoUrl (shiftStartTotal r)) \<and>
     photoValid (reportStatus r = R_submitted \<or> reportStatus r = R_approved)
       (photoUrl (shiftEndTotal r)) \<and>
     min0 (liftings r) \<and> min0 (cashFares r) \<and>
     min0 (amount (totalEFTPOS r)) \<and>
     photoValid (orZero (amount (totalEFTPOS r)) > 0) (photoUrl (totalEFTPOS r)) \<and>
     min0 (totalAccountTrips r) \<and>
     min0 (amount (cashExpenses r)) \<and>
     photoValid (orZero (amount (cashExpenses r)) > 0) (photoUrl (cashExpenses r)) \<and>
     (case totalTripsCount r of
        Count n \<Rightarrow> n \<ge> 0 \<and> of_int \<lfloor>n\<rfloor> = n
      | _ \<Rightarrow> False))"

definition toStored :: "calc_result \<Rightarrow> stored_calculations" where
  \<comment> \<open>\<open>report.calculations = calculations\<close>: the schema keeps its own paths\<close>
  "toStored c =
    \<lparr> c_shiftTotalFares = shiftTotalFares c,
      c_totalFareAndLiftings = totalFareAndLiftings c,
      c_rentals = rentals c,
      c_subTotal = subTotal c,
      c_tripLevy = tripLevy c,
      c_driverNetPay = driverNetPay c,
      c_operatorEarnings = operatorEarnings c,
      c_rentalRateUsed = rentalRateUsed c \<rparr>"

text \<open>
  The request body of \<open>updateDriverReport\<close>, one optional entry per allowed
  field (\<open>taxiNumber\<close> and \<open>notes\<close> are not part of the report model here).
\<close>

record update_data =
  u_shiftStartTotal :: "amount_photo option"
  u_shiftEndTotal :: "amount_photo option"
  u_liftings :: "rat option"
  u_cashFares :: "rat option"
  u_totalEFTPOS :: "amount_photo option"
  u_totalAccountTrips :: "rat option"
  u_cashExpenses :: "amount_photo option"
  u_totalTripsCount :: count_field

definition applyAllowedFields :: "update_data \<Rightarrow> report \<Rightarrow> report" where
  \<comment> \<open>\<open>if (updateData[field] !== undefined) report[field] = updateData[field]\<close>\<close>
  "applyAllowedFields u r =
    r\<lparr> shiftStartTotal := (case u_shiftStartTotal u of None \<Rightarrow> shiftStartTotal r | Some v \<Rightarrow> v),
       shiftEndTotal := (case u_shiftEndTotal u of None \<Rightarrow> shiftEndTotal r | Some v \<Rightarrow> v),
       liftings := (case u_liftings u of None \<Rightarrow> liftings r | Some v \<Rightarrow> Some v),
       cashFares := (case u_cashFares u of None \<Rightarrow> cashFares r | Some v \<Rightarrow> Some v),
       totalEFTPOS := (case u_totalEFTPOS u of None \<Rightarrow> totalEFTPOS r | Some v \<Rightarrow> v),
       totalAccountTrips :=
         (case u_totalAccountTrips u of None \<Rightarrow> totalAccountTrips r | Some v \<Rightarrow> Some v),
       cashExpenses := (case u_cashExpenses u of None \<Rightarrow> cashExpenses r | Some v \<Rightarrow> v),
       totalTripsCount :=
         (case u_totalTripsCount u of Undefined \<Rightarrow> totalTripsCount r | v \<Rightarrow> v) \<rparr>"

definition needsRecalculation :: "update_data \<Rightarrow> bool" where
  \<comment> \<open>the \<open>||\<close> chain: an object is truthy, a number is truthy unless it is 0\<close>
  "needsRecalculation u =
    (u_shiftStartTotal u \<noteq> None \<or> u_shiftEndTotal u \<noteq> None \<or>
     (case u_liftings u of None \<Rightarrow> False | Some v \<Rightarrow> v \<noteq> 0) \<or>
     (case u_cashFares u of None \<Rightarrow> False | Some v \<Rightarrow> v \<noteq> 0) \<or>
     u_totalEFTPOS u \<noteq> None \<or>
     (case u_totalAccountTrips u of None \<Rightarrow> False | Some v \<Rightarrow> v \<noteq> 0) \<or>
     u_cashExpenses u \<noteq> None \<or>
     (case u_totalTripsCount u of Count v \<Rightarrow> v \<noteq> 0 | _ \<Rightarrow> False))"

definition updateDriverReport ::
  "settings \<Rightarrow> report option \<Rightarrow> update_data \<Rightarrow> error_code + report" where
  \<comment> \<open>the second argument is the result of \<open>DriverReport.findOne\<close>; \<open>Inr\<close> is the
      report as saved\<close>
  "updateDriverReport st found updateData =
    (case found of
       None \<Rightarrow> Inl REPORT_NOT_FOUND
     | Some report0 \<Rightarrow>
        if \<not> canEdit report0 then Inl REPORT_NOT_EDITABLE
        else
          (let report1 = applyAllowedFields updateData report0 in
           if needsRecalculation updateData then
             (case calculateReportTotals (Some report1) st False of
                Inl m \<Rightarrow> Inl (INTERNAL_ERROR m)
              | Inr calcs \<Rightarrow>
                 (let errors = validateCalculations calcs report1 in
                  if \<not> isValid errors then Inl (CALCULATION_ERROR errors)
                  else
                    (let report2 = report1\<lparr> calculations := toStored calcs \<rparr> in
                     if validateReport report2 then Inr report2
                     else Inl VALIDATION_ERROR)))
           else if validateReport report1 then Inr report1
           else Inl VALIDATION_ERROR))"



section \<open>Users, shifts and rides (models/User.js, Shift.js, Ride.js)\<close>

type_synonym oid = nat
type_synonym date = nat

datatype role = ADMIN | MANAGER | DRIVER

datatype driver_status = FREE | ON_RIDE | DROPPED

record user =
  userRole :: role
  userStatus :: driver_status

text \<open>\<open>req.user\<close>, as the authentication middleware supplies it.\<close>

record actor =
  actorId :: oid
  actorRole :: role

record shift_doc =
  shiftId :: oid
  shiftDriver :: oid
  taxiNumber :: string
  startMeter :: rat
  startMeterPhoto :: string
  startTime :: date
  endTime :: "date option"
  isActive :: bool

datatype ride_status =
  Scheduled | Assigned | Accepted | Started | Rejected | Cancelled | Aborted | Completed

datatype booking_type = BT_scheduled | BT_immediate

record fare =
  total :: rat
  perPerson :: rat
  halfFare :: rat
  gst :: rat

record quick_trip_details =
  clientName :: "string option"
  clientPhone :: "string option"
  pickupLocation :: "string option"
  dropoffLocation :: "string option"
  completedByDriver :: bool
  completedAt :: "date option"

text \<open>
  The ride document.  \<open>from\<close> and \<open>to\<close> are \<open>from_dest\<close> and \<open>to_dest\<close> (\<open>from\<close> is a
  keyword); \<open>rideId\<close>, \<open>scheduledTime\<close> and \<open>notes\<close> are written once at
  creation and are left out.
\<close>

record ride =
  bookingType :: booking_type
  isQuickTrip :: bool
  isSelfAssigned :: bool
  clients :: "oid list"
  from_dest :: "oid option"
  to_dest :: "oid option"
  quickTripDetails :: quick_trip_details
  passengers :: int
  fare :: fare
  driver :: "oid option"
  shift :: "oid option"
  assignedBy :: "oid option"
  status :: ride_status
  driverNotes :: "string option"
  acceptedAt :: "date option"
  startedAt :: "date option"
  rejectedAt :: "date option"
  droppedAt :: "date option"
  cancelledAt :: "date option"
  cancellationReason :: "string option"
  cancellationNote :: "string option"
  abortedBy :: "oid option"
  abortedAt :: "date option"
  abortReason :: "string option"
  abortNote :: "string option"

text \<open>
  The document store: one association list per collection that holds
  documents by \<open>_id\<close>, the shifts in insertion order, the ids of the existing
  clients and destinations, and the value of the \<open>gst_rate\<close> setting, a
  divisor.  \<open>updateGSTSettings\<close>, its only writer, stores positive divisors;
  a divisor of 0 would make the GST infinite, which \<^typ>\<open>rat\<close> cannot express.
\<close>

record db =
  rides :: "(oid \<times> ride) list"
  users :: "(oid \<times> user) list"
  shifts :: "shift_doc list"
  clientIds :: "oid list"
  destinationIds :: "oid list"
  gstSetting :: "rat option"


section \<open>Store access\<close>

subsection \<open>Shift queries (config/db.js, models/Shift.js)\<close>

text \<open>
  A filter passed to \<open>Shift.findOne\<close> is a list of equality conditions.
  \<open>connectDB\<close> sets \<open>mongoose.set("strictQuery", true)\<close>: Mongoose then removes
  from a filter every path that the schema does not define, before the
  query is sent.  \<open>shiftSchema\<close> defines \<open>driver\<close> and \<open>isActive\<close> (and \<open>_id\<close>) and
  no \<open>status\<close>; a stored shift has no \<open>status\<close> field either, so without the
  removal a condition on \<open>status\<close> matches no shift.
\<close>

datatype shift_cond =
    Cond_id oid
  | Cond_driver oid
  | Cond_isActive bool
  | Cond_status string

definition strictQuery :: bool where
  "strictQuery = True"

fun inShiftSchema :: "shift_cond \<Rightarrow> bool" where
  "inShiftSchema (Cond_status s) = False"
| "inShiftSchema c = True"

definition castFilter :: "bool \<Rightarrow> shift_cond list \<Rightarrow> shift_cond list" where
  "castFilter strict conds = (if strict then filter inShiftSchema conds else conds)"

fun matches :: "shift_doc \<Rightarrow> shift_cond \<Rightarrow> bool" where
  "matches sh (Cond_id i) = (shiftId sh = i)"
| "matches sh (Cond_driver d) = (shiftDriver sh = d)"
| "matches sh (Cond_isActive b) = (isActive sh = b)"
| "matches sh (Cond_status s) = False"

definition Shift_findOne_with :: "bool \<Rightarrow> shift_cond list \<Rightarrow> shift_doc list \<Rightarrow> shift_doc option" where
  "Shift_findOne_with strict conds shs =
     find (\<lambda>sh. list_all (matches sh) (castFilter strict conds)) shs"

definition Shift_findOne :: "shift_cond list \<Rightarrow> shift_doc list \<Rightarrow> shift_doc option" where
  "Shift_findOne = Shift_findOne_with strictQuery"

fun updateFirst :: "('a \<Rightarrow> bool) \<Rightarrow> ('a \<Rightarrow> 'a) \<Rightarrow> 'a list \<Rightarrow> 'a list" where
  "updateFirst P f [] = []"
| "updateFirst P f (x # xs) = (if P x then f x # xs else x # updateFirst P f xs)"

definition Shift_findOneAndUpdate ::
  "shift_cond list \<Rightarrow> (shift_doc \<Rightarrow> shift_doc) \<Rightarrow> shift_doc list \<Rightarrow> shift_doc option \<times> shift_doc list" where
  \<comment> \<open>with \<open>{ new: true }\<close>: the updated document, or \<open>null\<close>\<close>
  "Shift_findOneAndUpdate conds f shs =
     (case Shift_findOne conds shs of
        None \<Rightarrow> (None, shs)
      | Some sh \<Rightarrow>
         (Some (f sh),
          updateFirst (\<lambda>sh. list_all (matches sh) (castFilter strictQuery conds)) f shs))"

definition is_space :: "char \<Rightarrow> bool" where
  \<comment> \<open>a character is a code unit below 256; the white space and the line
      terminators of ECMAScript among them are tab, line feed, vertical tab,
      form feed, carriage return, space, and the no-break space\<close>
  "is_space c = (c = CHR '' '' \<or> c = CHR 0x09 \<or> c = CHR 0x0A \<or> c = CHR 0x0B \<or>
                 c = CHR 0x0C \<or> c = CHR 0x0D \<or> c = CHR 0xA0)"

definition trim :: "string \<Rightarrow> string" where
  "trim s = rev (dropWhile is_space (rev (dropWhile is_space s)))"

definition Shift_create :: "shift_doc \<Rightarrow> shift_doc list \<Rightarrow> shift_doc list option" where
  \<comment> \<open>\<open>None\<close>: the insertion throws, either on a schema validator (\<open>required\<close>
      after \<open>trim\<close>, \<open>min: 0\<close>) or on a unique index: \<open>_id\<close>, and the partial
      index \<open>{ driver: 1, isActive: 1 }\<close> over the shifts with \<open>isActive: true\<close>\<close>
  "Shift_create sh shs =
     (let doc = sh\<lparr> taxiNumber := trim (taxiNumber sh),
                    startMeterPhoto := trim (startMeterPhoto sh) \<rparr> in
      if taxiNumber doc = [] \<or> startMeterPhoto doc = [] \<or> startMeter doc < 0 then None
      else if shiftId doc \<in> set (map shiftId shs) then None
      else if isActive doc \<and>
              list_ex (\<lambda>x. isActive x \<and> shiftDriver x = shiftDriver doc) shs then None
      else Some (shs @ [doc]))"

subsection \<open>Rides and users\<close>

definition Ride_findById :: "oid \<Rightarrow> db \<Rightarrow> ride option" where
  "Ride_findById i d = map_of (rides d) i"

definition validateRide :: "ride \<Rightarrow> bool" where
  \<comment> \<open>the \<open>min\<close> validators of \<open>rideSchema\<close>, run by \<open>ride.save()\<close>\<close>
  "validateRide r =
     (passengers r \<ge> 1 \<and> total (fare r) \<ge> 0 \<and> perPerson (fare r) \<ge> 0 \<and>
      halfFare (fare r) \<ge> 0 \<and> gst (fare r) \<ge> 0)"

definition Ride_save :: "oid \<Rightarrow> ride \<Rightarrow> db \<Rightarrow> db option" where
  \<comment> \<open>\<open>None\<close>: \<open>save\<close> throws a \<open>ValidationError\<close> and writes nothing\<close>
  "Ride_save i r d =
     (if validateRide r then Some (d\<lparr> rides := AList.update i r (rides d) \<rparr>) else None)"

definition User_setStatus :: "oid option \<Rightarrow> driver_status \<Rightarrow> db \<Rightarrow> db" where
  \<comment> \<open>\<open>User.findByIdAndUpdate(id, { status })\<close>: nothing happens when no user
      has this id\<close>
  "User_setStatus uid st d =
     (case uid of
        None \<Rightarrow> d
      | Some u \<Rightarrow>
         (case map_of (users d) u of
            None \<Rightarrow> d
          | Some usr \<Rightarrow> d\<lparr> users := AList.update u (usr\<lparr> userStatus := st \<rparr>) (users d) \<rparr>))"

definition ensureDriverFree :: "oid \<Rightarrow> db \<Rightarrow> error_code + user" where
  \<comment> \<open>\<open>Inl c\<close>: throws an error whose \<open>code\<close> is \<open>c\<close>\<close>
  "ensureDriverFree driverId d =
     (case map_of (users d) driverId of
        None \<Rightarrow> Inl INVALID_DRIVER
      | Some drv \<Rightarrow>
         if userRole drv \<noteq> DRIVER then Inl INVALID_DRIVER
         else if userStatus drv \<noteq> FREE then Inl DRIVER_NOT_FREE
         else Inr drv)"

definition DEFAULT_GST_RATE :: rat where
  "DEFAULT_GST_RATE = 11"

definition getCurrentGSTRate :: "db \<Rightarrow> rat" where
  "getCurrentGSTRate d = (case gstSetting d of Some v \<Rightarrow> v | None \<Rightarrow> DEFAULT_GST_RATE)"

definition calculateGST :: "db \<Rightarrow> rat \<Rightarrow> rat" where
  \<comment> \<open>\<open>Number((farePerPerson / gstDivisor).toFixed(2))\<close>, for a divisor that is
      not 0\<close>
  "calculateGST d farePerPerson = toFixed2 (js_div farePerPerson (getCurrentGSTRate d))"

definition TYPE_ERROR :: error_code where
  \<comment> \<open>\<open>ride.driver.toString()\<close> or \<open>ride.from.toString()\<close> on a missing reference\<close>
  "TYPE_ERROR = INTERNAL_ERROR ''Cannot read properties of null''"

definition RIDE_VALIDATION_FAILED :: error_code where
  "RIDE_VALIDATION_FAILED = INTERNAL_ERROR ''Ride validation failed''"


section \<open>Shift controller (controllers/shiftController.js)\<close>

definition startShift ::
  "actor \<Rightarrow> string option \<Rightarrow> rat option \<Rightarrow> string option \<Rightarrow> string option \<Rightarrow> oid \<Rightarrow> date \<Rightarrow>
     db \<Rightarrow> response \<times> db" where
  \<comment> \<open>arguments: \<open>req.user\<close>; \<open>taxiNumber\<close> when it is a string; \<open>Number(startMeter)\<close>
      unless it is \<open>NaN\<close>; \<open>startMeterPhoto\<close> of the body; the URL of an
      uploaded file; the \<open>_id\<close> of the new document; the clock\<close>
  "startShift usr taxiNumberArg startMeterNum startMeterPhotoArg fileUrl newId now d =
    (case taxiNumberArg of
       None \<Rightarrow> (Failure (NO_CODE ''taxiNumber is required''), d)
     | Some taxi \<Rightarrow>
       if taxi = [] then (Failure (NO_CODE ''taxiNumber is required''), d)
       else
        (case startMeterNum of
           None \<Rightarrow> (Failure (NO_CODE ''startMeter must be a non-negative number''), d)
         | Some meter \<Rightarrow>
           if meter < 0 then (Failure (NO_CODE ''startMeter must be a non-negative number''), d)
           else
            (case Shift_findOne [Cond_driver (actorId usr), Cond_isActive True] (shifts d) of
               Some existing \<Rightarrow> (Failure (NO_CODE ''You already have an active shift''), d)
             | None \<Rightarrow>
                (let photoUrl0 = (if truthy_string startMeterPhotoArg then startMeterPhotoArg
                                  else fileUrl);
                     photo = (case photoUrl0 of
                                None \<Rightarrow> ''pending''
                              | Some p \<Rightarrow> if p = [] then ''pending'' else p)
                 in
                 case Shift_create
                        \<lparr> shiftId = newId, shiftDriver = actorId usr, taxiNumber = trim taxi,
                          startMeter = meter, startMeterPhoto = photo, startTime = now,
                          endTime = None, isActive = True \<rparr> (shifts d) of
                   None \<Rightarrow> (Failure (NO_CODE ''Failed to start shift''), d)
                 | Some shs \<Rightarrow> (Success, d\<lparr> shifts := shs \<rparr>)))))"

definition updateShift :: "actor \<Rightarrow> oid \<Rightarrow> string option \<Rightarrow> db \<Rightarrow> response \<times> db" where
  \<comment> \<open>Mongoose casts the update against the schema, which runs the \<open>trim\<close>
      setter of \<open>startMeterPhoto\<close>; an update runs no validator\<close>
  "updateShift usr sid startMeterPhotoArg d =
    (case startMeterPhotoArg of
       None \<Rightarrow> (Failure (NO_CODE ''startMeterPhoto URL is required''), d)
     | Some photo \<Rightarrow>
       if photo = [] then (Failure (NO_CODE ''startMeterPhoto URL is required''), d)
       else
        (case Shift_findOneAndUpdate [Cond_id sid, Cond_driver (actorId usr)]
                (\<lambda>sh. sh\<lparr> startMeterPhoto := trim photo \<rparr>) (shifts d) of
           (None, shs) \<Rightarrow>
             (Failure (NO_CODE ''Shift not found or you do not have permission''), d)
         | (Some sh, shs) \<Rightarrow> (Success, d\<lparr> shifts := shs \<rparr>)))"

definition endShift :: "actor \<Rightarrow> oid \<Rightarrow> date \<Rightarrow> db \<Rightarrow> response \<times> db" where
  "endShift usr sid now d =
    (case Shift_findOneAndUpdate [Cond_id sid, Cond_driver (actorId usr), Cond_isActive True]
            (\<lambda>sh. sh\<lparr> isActive := False, endTime := Some now \<rparr>) (shifts d) of
       (None, shs) \<Rightarrow> (Failure (NO_CODE ''Active shift not found''), d)
     | (Some sh, shs) \<Rightarrow> (Success, d\<lparr> shifts := shs \<rparr>))"


section \<open>Ride controller (controllers/rideController.js)\<close>

text \<open>
  Each endpoint takes \<open>req.user\<close>, the ride id of the route, the parsed body,
  the clock where the source reads \<open>new Date()\<close>, and the store; it returns the
  response and the store after the request.  Notifications are written to a
  collection of their own and are not modelled.
\<close>

definition updateRideStatus ::
  "actor \<Rightarrow> oid \<Rightarrow> ride_status option \<Rightarrow> date \<Rightarrow> db \<Rightarrow> response \<times> db" where
  \<comment> \<open>the third argument is \<open>req.body.status\<close>; \<open>None\<close> when it is missing or is
      no ride status at all\<close>
  "updateRideStatus usr i statusArg now d =
    (if statusArg \<noteq> Some Accepted \<and> statusArg \<noteq> Some Cancelled \<and> statusArg \<noteq> Some Completed
     then (Failure VALIDATION_ERROR, d)
     else
      (case Ride_findById i d of
         None \<Rightarrow> (Failure NOT_FOUND, d)
       | Some ride0 \<Rightarrow>
         if actorRole usr = DRIVER \<and> driver ride0 = None then (Failure TYPE_ERROR, d)
         else
          (let isSelfDriver = (actorRole usr = DRIVER \<and> Some (actorId usr) = driver ride0);
               isStaff = (actorRole usr = ADMIN \<or> actorRole usr = MANAGER)
           in
           if \<not> isSelfDriver \<and> \<not> isStaff then (Failure FORBIDDEN, d)
           else if status ride0 = Assigned \<and> statusArg = Some Accepted then
             (case Ride_save i
                     (ride0\<lparr> status := Accepted,
                             acceptedAt := (case acceptedAt ride0 of None \<Rightarrow> Some now
                                            | Some t \<Rightarrow> Some t) \<rparr>) d of
                None \<Rightarrow> (Failure RIDE_VALIDATION_FAILED, d)
              | Some d1 \<Rightarrow> (Success, d1))
           else if (status ride0 = Assigned \<or> status ride0 = Accepted \<or> status ride0 = Started)
                   \<and> statusArg = Some Cancelled then
             (case Ride_save i
                     (ride0\<lparr> status := Cancelled,
                             cancelledAt := (case cancelledAt ride0 of None \<Rightarrow> Some now
                                             | Some t \<Rightarrow> Some t) \<rparr>) d of
                None \<Rightarrow> (Failure RIDE_VALIDATION_FAILED, d)
              | Some d1 \<Rightarrow> (Success, User_setStatus (driver ride0) FREE d1))
           else if status ride0 = Started \<and> statusArg = Some Completed then
             (if startedAt ride0 = None then (Failure RIDE_NOT_STARTED, d)
              else
               (case Ride_save i
                       (ride0\<lparr> status := Completed,
                               droppedAt := (case droppedAt ride0 of None \<Rightarrow> Some now
                                             | Some t \<Rightarrow> Some t) \<rparr>) d of
                  None \<Rightarrow> (Failure RIDE_VALIDATION_FAILED, d)
                | Some d1 \<Rightarrow> (Success, User_setStatus (driver ride0) FREE d1)))
           else (Failure INVALID_TRANSITION, d))))"

definition reassignRide :: "actor \<Rightarrow> oid \<Rightarrow> oid option \<Rightarrow> db \<Rightarrow> response \<times> db" where
  "reassignRide usr i newDriverArg d =
    (case newDriverArg of
       None \<Rightarrow> (Failure VALIDATION_ERROR, d)
     | Some newDriverId \<Rightarrow>
      (case Ride_findById i d of
         None \<Rightarrow> (Failure NOT_FOUND, d)
       | Some ride0 \<Rightarrow>
         if status ride0 \<noteq> Assigned then (Failure INVALID_TRANSITION, d)
         else
          (case driver ride0 of
             None \<Rightarrow> (Failure TYPE_ERROR, d)
           | Some oldDriverId \<Rightarrow>
             (let d1 = User_setStatus (Some oldDriverId) FREE d in
              case ensureDriverFree newDriverId d1 of
                Inl c \<Rightarrow> (Failure c, d1)
              | Inr drv \<Rightarrow>
                 (case Ride_save i (ride0\<lparr> driver := Some newDriverId \<rparr>) d1 of
                    None \<Rightarrow> (Failure RIDE_VALIDATION_FAILED, d1)
                  | Some d2 \<Rightarrow> (Success, User_setStatus (Some newDriverId) ON_RIDE d2))))))"

definition acceptRide :: "actor \<Rightarrow> oid \<Rightarrow> date \<Rightarrow> db \<Rightarrow> response \<times> db" where
  "acceptRide usr i now d =
    (case Ride_findById i d of
       None \<Rightarrow> (Failure NOT_FOUND, d)
     | Some ride0 \<Rightarrow>
      (case driver ride0 of
         None \<Rightarrow> (Failure TYPE_ERROR, d)
       | Some rideDriver \<Rightarrow>
         if actorId usr \<noteq> rideDriver then (Failure FORBIDDEN, d)
         else if status ride0 \<noteq> Assigned then (Failure INVALID_STATUS, d)
         else
          (case Shift_findOne [Cond_driver (actorId usr), Cond_isActive True] (shifts d) of
             None \<Rightarrow> (Failure NO_ACTIVE_SHIFT, d)
           | Some activeShift \<Rightarrow>
             (case Ride_save i
                     (ride0\<lparr> status := Accepted, acceptedAt := Some now,
                             shift := Some (shiftId activeShift) \<rparr>) d of
                None \<Rightarrow> (Failure RIDE_VALIDATION_FAILED, d)
              | Some d1 \<Rightarrow> (Success, User_setStatus (driver ride0) ON_RIDE d1)))))"

definition rejectRide :: "actor \<Rightarrow> oid \<Rightarrow> date \<Rightarrow> db \<Rightarrow> response \<times> db" where
  "rejectRide usr i now d =
    (case Ride_findById i d of
       None \<Rightarrow> (Failure NOT_FOUND, d)
     | Some ride0 \<Rightarrow>
      (case driver ride0 of
         None \<Rightarrow> (Failure TYPE_ERROR, d)
       | Some rideDriver \<Rightarrow>
         if actorId usr \<noteq> rideDriver then (Failure FORBIDDEN, d)
         else if status ride0 \<noteq> Assigned then (Failure INVALID_STATUS, d)
         else
          (case Ride_save i (ride0\<lparr> status := Rejected, rejectedAt := Some now \<rparr>) d of
             None \<Rightarrow> (Failure RIDE_VALIDATION_FAILED, d)
           | Some d1 \<Rightarrow> (Success, User_setStatus (driver ride0) FREE d1))))"

definition startRide :: "actor \<Rightarrow> oid \<Rightarrow> date \<Rightarrow> db \<Rightarrow> response \<times> db" where
  "startRide usr i now d =
    (case Ride_findById i d of
       None \<Rightarrow> (Failure NOT_FOUND, d)
     | Some ride0 \<Rightarrow>
      (case driver ride0 of
         None \<Rightarrow> (Failure TYPE_ERROR, d)
       | Some rideDriver \<Rightarrow>
         if actorId usr \<noteq> rideDriver then (Failure FORBIDDEN, d)
         else if status ride0 \<noteq> Accepted then (Failure INVALID_STATUS, d)
         else if startedAt ride0 \<noteq> None then (Failure ALREADY_STARTED, d)
         else
          (case Shift_findOne [Cond_driver (actorId usr), Cond_isActive True] (shifts d) of
             None \<Rightarrow> (Failure NO_ACTIVE_SHIFT, d)
           | Some activeShift \<Rightarrow>
             (let ride1 = (case shift ride0 of
                             None \<Rightarrow> ride0\<lparr> shift := Some (shiftId activeShift) \<rparr>
                           | Some sid \<Rightarrow> ride0)
              in
              case Ride_save i (ride1\<lparr> startedAt := Some now, status := Started \<rparr>) d of
                None \<Rightarrow> (Failure RIDE_VALIDATION_FAILED, d)
              | Some d1 \<Rightarrow> (Success, d1)))))"


text \<open>
  A fare read from a request body: absent (\<open>null\<close> or \<open>undefined\<close>), a value that
  \<open>parseFloat\<close> turns into \<open>NaN\<close>, or a number, given by its decimal value;
  \<open>parseFloat\<close> turns it into a double.
\<close>

datatype fare_input = Fare_absent | Fare_NaN | Fare_number rat

record drop_body =
  fareTotal :: fare_input
  d_driverNotes :: "string option"
  d_from :: "oid option"
  d_to :: "oid option"
  d_passengers :: "int option"
  additionalClientIds :: "oid list"
  additionalClients :: nat

text \<open>
  \<open>additionalClientIds\<close> holds the entries that pass the filter
  \<open>id && typeof id === "string"\<close> (none when the field is missing or is no
  array); \<open>additionalClients\<close> is the length of that array (0 when it is
  missing or is no array).
\<close>

definition Client_countDocuments :: "oid list \<Rightarrow> db \<Rightarrow> nat" where
  \<comment> \<open>\<open>Client.countDocuments({ _id: { $in: ids } })\<close>\<close>
  "Client_countDocuments ids d = length (filter (\<lambda>c. c \<in> set ids) (remdups (clientIds d)))"

definition Destination_exists :: "oid \<Rightarrow> db \<Rightarrow> bool" where
  "Destination_exists i d = (i \<in> set (destinationIds d))"

definition andThen :: "'e + 'a \<Rightarrow> ('a \<Rightarrow> 'e + 'b) \<Rightarrow> 'e + 'b" where
  \<comment> \<open>sequencing: an early return or a throw ends the handler\<close>
  "andThen m f = (case m of Inl e \<Rightarrow> Inl e | Inr x \<Rightarrow> f x)"

text \<open>
  The body of \<open>dropRide\<close> between the shift check and \<open>ride.save()\<close>, block by
  block; each block works on the loaded document and may return early.
\<close>

definition drop_linkShift :: "shift_doc \<Rightarrow> ride \<Rightarrow> ride" where
  "drop_linkShift activeShift r =
     (case shift r of None \<Rightarrow> r\<lparr> shift := Some (shiftId activeShift) \<rparr> | Some sid \<Rightarrow> r)"

definition drop_newClients :: "drop_body \<Rightarrow> ride \<Rightarrow> error_code + ride" where
  "drop_newClients body r =
     (if additionalClients body > 0 then Inl NEW_CLIENTS_NOT_ALLOWED else Inr r)"

definition drop_from :: "db \<Rightarrow> drop_body \<Rightarrow> ride \<Rightarrow> error_code + ride" where
  "drop_from d body r =
     (case d_from body of
        None \<Rightarrow> Inr r
      | Some f \<Rightarrow>
        (case from_dest r of
           None \<Rightarrow> Inl TYPE_ERROR
         | Some rf \<Rightarrow>
           if f \<noteq> rf then
             (if Destination_exists f d then Inr (r\<lparr> from_dest := Some f \<rparr>)
              else Inl INVALID_DESTINATION)
           else Inr r))"

definition drop_to :: "db \<Rightarrow> drop_body \<Rightarrow> ride \<Rightarrow> error_code + ride" where
  "drop_to d body r =
     (case d_to body of
        None \<Rightarrow> Inr r
      | Some t \<Rightarrow>
        (case to_dest r of
           None \<Rightarrow> Inl TYPE_ERROR
         | Some rt \<Rightarrow>
           if t \<noteq> rt then
             (if Destination_exists t d then Inr (r\<lparr> to_dest := Some t \<rparr>)
              else Inl INVALID_DESTINATION)
           else Inr r))"

definition drop_passengers :: "drop_body \<Rightarrow> ride \<Rightarrow> error_code + ride" where
  "drop_passengers body r =
     (case d_passengers body of
        None \<Rightarrow> Inr r
      | Some p \<Rightarrow>
        if p \<noteq> 0 \<and> p \<noteq> passengers r then
          (if p < 1 then Inl VALIDATION_ERROR else Inr (r\<lparr> passengers := p \<rparr>))
        else Inr r)"

definition drop_clients :: "db \<Rightarrow> drop_body \<Rightarrow> ride \<Rightarrow> error_code + ride" where
  "drop_clients d body r =
     (let validClientIds = additionalClientIds body in
      if length validClientIds > 0 then
        (if Client_countDocuments validClientIds d \<noteq> length validClientIds
         then Inl INVALID_CLIENTS
         else Inr (r\<lparr> clients := clients r @ validClientIds \<rparr>))
      else Inr r)"

definition drop_updatedTotal :: "drop_body \<Rightarrow> ride \<Rightarrow> error_code + rat" where
  "drop_updatedTotal body r =
     (case fareTotal body of
        Fare_absent \<Rightarrow> Inr (total (fare r))
      | Fare_NaN \<Rightarrow> Inl VALIDATION_ERROR
      | Fare_number v \<Rightarrow>
          (let parsedFareTotal = to_double v in
           if parsedFareTotal < 0 then Inl VALIDATION_ERROR else Inr parsedFareTotal))"

definition drop_complete :: "db \<Rightarrow> drop_body \<Rightarrow> date \<Rightarrow> ride \<Rightarrow> rat \<Rightarrow> ride" where
  "drop_complete d body now r updatedTotal =
     (let totalClientCount = length (clients r);
          farePerPerson =
            (if totalClientCount > 0
             then toFixed2 (js_div updatedTotal (of_nat totalClientCount)) else 0);
          halfFare' = toFixed2 (js_div updatedTotal 2);
          gst' = calculateGST d farePerPerson
      in r\<lparr> fare := \<lparr> total = updatedTotal, perPerson = farePerPerson,
                       halfFare = halfFare', gst = gst' \<rparr>,
             passengers := int totalClientCount,
             driverNotes := (case d_driverNotes body of
                               None \<Rightarrow> driverNotes r
                             | Some n \<Rightarrow> if n = [] then driverNotes r else Some (trim n)),
             status := Completed,
             droppedAt := Some now \<rparr>)"

definition dropRide_update :: "db \<Rightarrow> shift_doc \<Rightarrow> drop_body \<Rightarrow> date \<Rightarrow> ride \<Rightarrow> error_code + ride" where
  "dropRide_update d activeShift body now ride0 =
     andThen (drop_newClients body (drop_linkShift activeShift ride0)) (\<lambda>ride1.
     andThen (drop_from d body ride1) (\<lambda>ride2.
     andThen (drop_to d body ride2) (\<lambda>ride3.
     andThen (drop_passengers body ride3) (\<lambda>ride4.
     andThen (drop_clients d body ride4) (\<lambda>ride5.
     andThen (drop_updatedTotal body ride5) (\<lambda>updatedTotal.
     Inr (drop_complete d body now ride5 updatedTotal)))))))"

definition dropRide :: "actor \<Rightarrow> oid \<Rightarrow> drop_body \<Rightarrow> date \<Rightarrow> db \<Rightarrow> response \<times> db" where
  "dropRide usr i body now d =
    (case Ride_findById i d of
       None \<Rightarrow> (Failure NOT_FOUND, d)
     | Some ride0 \<Rightarrow>
      (case driver ride0 of
         None \<Rightarrow> (Failure TYPE_ERROR, d)
       | Some rideDriver \<Rightarrow>
         if actorId usr \<noteq> rideDriver then (Failure FORBIDDEN, d)
         else if status ride0 \<noteq> Started then (Failure INVALID_STATUS, d)
         else if startedAt ride0 = None then (Failure RIDE_NOT_STARTED, d)
         else
          (case Shift_findOne [Cond_driver (actorId usr), Cond_isActive True] (shifts d) of
             None \<Rightarrow> (Failure NO_ACTIVE_SHIFT, d)
           | Some activeShift \<Rightarrow>
             (case dropRide_update d activeShift body now ride0 of
                Inl c \<Rightarrow> (Failure c, d)
              | Inr ride1 \<Rightarrow>
                 (case Ride_save i ride1 d of
                    None \<Rightarrow> (Failure RIDE_VALIDATION_FAILED, d)
                  | Some d1 \<Rightarrow> (Success, User_setStatus (driver ride1) FREE d1))))))"

definition validCancelReasons :: "string list" where
  "validCancelReasons =
    [''vehicle_breakdown'', ''emergency'', ''traffic_jam'', ''client_no_show'',
     ''client_cancelled'', ''route_blocked'', ''personal_emergency'', ''other'']"

definition cancelOngoingRide ::
  "actor \<Rightarrow> oid \<Rightarrow> string option \<Rightarrow> string option \<Rightarrow> date \<Rightarrow> db \<Rightarrow> response \<times> db" where
  "cancelOngoingRide usr i reasonArg noteArg now d =
    (if \<not> truthy_string reasonArg then (Failure VALIDATION_ERROR, d)
     else if reasonArg \<notin> Some ` set validCancelReasons then (Failure INVALID_REASON, d)
     else
      (case Ride_findById i d of
         None \<Rightarrow> (Failure NOT_FOUND, d)
       | Some ride0 \<Rightarrow>
        (case driver ride0 of
           None \<Rightarrow> (Failure TYPE_ERROR, d)
         | Some rideDriver \<Rightarrow>
           if actorId usr \<noteq> rideDriver then (Failure FORBIDDEN, d)
           else if status ride0 \<noteq> Assigned \<and> status ride0 \<noteq> Accepted \<and> status ride0 \<noteq> Started
             then (Failure INVALID_STATUS, d)
           else
            (case Ride_save i
                    (ride0\<lparr> status := Cancelled, cancelledAt := Some now,
                            cancellationReason := reasonArg,
                            cancellationNote := (if truthy_string noteArg then noteArg
                                                 else cancellationNote ride0) \<rparr>) d of
               None \<Rightarrow> (Failure RIDE_VALIDATION_FAILED, d)
             | Some d1 \<Rightarrow> (Success, User_setStatus (driver ride0) FREE d1)))))"

definition assignScheduledBooking :: "actor \<Rightarrow> oid \<Rightarrow> oid option \<Rightarrow> db \<Rightarrow> response \<times> db" where
  "assignScheduledBooking usr i driverArg d =
    (case driverArg of
       None \<Rightarrow> (Failure VALIDATION_ERROR, d)
     | Some driverId \<Rightarrow>
      (case Ride_findById i d of
         None \<Rightarrow> (Failure NOT_FOUND, d)
       | Some booking \<Rightarrow>
         if status booking \<noteq> Scheduled then (Failure INVALID_STATUS, d)
         else
          (case ensureDriverFree driverId d of
             Inl c \<Rightarrow> (Failure c, d)
           | Inr drv \<Rightarrow>
             (case Ride_save i
                     (booking\<lparr> driver := Some driverId, status := Assigned,
                               bookingType := BT_immediate \<rparr>) d of
                None \<Rightarrow> (Failure RIDE_VALIDATION_FAILED, d)
              | Some d1 \<Rightarrow> (Success, User_setStatus (Some driverId) ON_RIDE d1)))))"

definition validAbortReasons :: "string list" where
  "validAbortReasons =
    [''client_request'', ''vehicle_unavailable'', ''driver_unavailable'',
     ''weather_conditions'', ''route_issues'', ''scheduling_conflict'',
     ''client_no_show'', ''other'']"

definition abortRide ::
  "actor \<Rightarrow> oid \<Rightarrow> string option \<Rightarrow> string option \<Rightarrow> date \<Rightarrow> db \<Rightarrow> response \<times> db" where
  "abortRide usr i reasonArg noteArg now d =
    (if \<not> truthy_string reasonArg then (Failure VALIDATION_ERROR, d)
     else if reasonArg \<notin> Some ` set validAbortReasons then (Failure INVALID_REASON, d)
     else
      (case Ride_findById i d of
         None \<Rightarrow> (Failure NOT_FOUND, d)
       | Some ride0 \<Rightarrow>
         if actorRole usr \<noteq> MANAGER then (Failure FORBIDDEN, d)
         else if status ride0 \<noteq> Assigned \<and> status ride0 \<noteq> Accepted
           then (Failure INVALID_STATUS, d)
         else
          (case Ride_save i
                  (ride0\<lparr> status := Aborted, abortedAt := Some now,
                          abortedBy := Some (actorId usr),
                          abortReason := reasonArg,
                          abortNote := (if truthy_string noteArg then noteArg
                                        else abortNote ride0) \<rparr>) d of
             None \<Rightarrow> (Failure RIDE_VALIDATION_FAILED, d)
           | Some d1 \<Rightarrow> (Success, User_setStatus (driver ride0) FREE d1))))"


subsection \<open>Quick trips and self-assigned rides\<close>

definition blank :: "string option \<Rightarrow> bool" where
  \<comment> \<open>\<open>!s || !s.trim()\<close>\<close>
  "blank s = (case s of None \<Rightarrow> True | Some t \<Rightarrow> trim t = [])"

definition Ride_create :: "oid \<Rightarrow> ride \<Rightarrow> db \<Rightarrow> db option" where
  \<comment> \<open>\<open>Ride.create\<close> under a new \<open>_id\<close>; \<open>None\<close>: the insertion throws\<close>
  "Ride_create i r d =
     (if \<not> validateRide r \<or> i \<in> set (map fst (rides d)) then None
      else Some (d\<lparr> rides := rides d @ [(i, r)] \<rparr>))"

definition emptyQuickTripDetails :: quick_trip_details where
  "emptyQuickTripDetails =
    \<lparr> clientName = None, clientPhone = None, pickupLocation = None,
      dropoffLocation = None, completedByDriver = False, completedAt = None \<rparr>"

definition createQuickTrip :: "actor \<Rightarrow> oid \<Rightarrow> oid \<Rightarrow> db \<Rightarrow> response \<times> db" where
  \<comment> \<open>arguments: \<open>req.user\<close>, \<open>req.body.driverId\<close>, the \<open>_id\<close> of the new ride\<close>
  "createQuickTrip usr driverId newRideId d =
    (case ensureDriverFree driverId d of
       Inl c \<Rightarrow> (Failure c, d)
     | Inr drv \<Rightarrow>
       (let activeShift = Shift_findOne [Cond_driver driverId, Cond_status ''active''] (shifts d)
        in
        case Ride_create newRideId
               \<lparr> bookingType = BT_immediate, isQuickTrip = True, isSelfAssigned = False,
                 clients = [], from_dest = None, to_dest = None,
                 quickTripDetails = emptyQuickTripDetails,
                 passengers = 1,
                 fare = \<lparr> total = 0, perPerson = 0, halfFare = 0, gst = 0 \<rparr>,
                 driver = Some driverId,
                 shift = map_option shiftId activeShift,
                 assignedBy = Some (actorId usr),
                 status = Assigned, driverNotes = None,
                 acceptedAt = None, startedAt = None, rejectedAt = None, droppedAt = None,
                 cancelledAt = None, cancellationReason = None, cancellationNote = None,
                 abortedBy = None, abortedAt = None, abortReason = None, abortNote = None \<rparr> d of
          None \<Rightarrow> (Failure (INTERNAL_ERROR ''Ride.create failed''), d)
        | Some d1 \<Rightarrow> (Success, User_setStatus (Some driverId) ON_RIDE d1)))"

record quick_trip_body =
  q_clientName :: "string option"
  q_pickupLocation :: "string option"
  q_dropoffLocation :: "string option"
  q_fareTotal :: fare_input
  q_driverNotes :: "string option"

text \<open>
  The ids of the client and of the two destinations that the endpoint
  creates are chosen by the store; they are arguments here.
\<close>

definition populatedDriver :: "db \<Rightarrow> ride \<Rightarrow> oid option" where
  \<comment> \<open>\<open>populate("driver")\<close>: \<open>null\<close> when the ride has no driver or the user is gone\<close>
  "populatedDriver d r =
     (case driver r of
        None \<Rightarrow> None
      | Some u \<Rightarrow> (case map_of (users d) u of None \<Rightarrow> None | Some usr \<Rightarrow> Some u))"

definition completeQuickTripDetails ::
  "actor \<Rightarrow> oid \<Rightarrow> quick_trip_body \<Rightarrow> oid \<Rightarrow> oid \<Rightarrow> oid \<Rightarrow> date \<Rightarrow> db \<Rightarrow> response \<times> db" where
  "completeQuickTripDetails usr i body newClientId newFromId newToId now d =
    (case Ride_findById i d of
       None \<Rightarrow> (Failure RIDE_NOT_FOUND, d)
     | Some ride0 \<Rightarrow>
       if \<not> isQuickTrip ride0 then (Failure NOT_QUICK_TRIP, d)
       else if actorRole usr = DRIVER \<and> populatedDriver d ride0 = None
         then (Failure TYPE_ERROR, d)
       else if actorRole usr = DRIVER \<and> populatedDriver d ride0 \<noteq> Some (actorId usr)
         then (Failure FORBIDDEN, d)
       else if status ride0 \<noteq> Started then (Failure INVALID_STATUS, d)
       else if startedAt ride0 = None then (Failure RIDE_NOT_STARTED, d)
       else if blank (q_clientName body) then (Failure VALIDATION_ERROR, d)
       else if blank (q_pickupLocation body) then (Failure VALIDATION_ERROR, d)
       else if blank (q_dropoffLocation body) then (Failure VALIDATION_ERROR, d)
       else
        (case q_fareTotal body of
           Fare_absent \<Rightarrow> (Failure VALIDATION_ERROR, d)
         | Fare_NaN \<Rightarrow> (Failure VALIDATION_ERROR, d)
         | Fare_number v \<Rightarrow>
           if to_double v \<le> 0 then (Failure VALIDATION_ERROR, d)
           else
            (let parsedFare = to_double v;
                 d1 = d\<lparr> clientIds := clientIds d @ [newClientId],
                          destinationIds := destinationIds d @ [newFromId, newToId] \<rparr>;
                 gst' = calculateGST d1 parsedFare;
                 ride1 = ride0\<lparr>
                   clients := [newClientId],
                   from_dest := Some newFromId,
                   to_dest := Some newToId,
                   quickTripDetails :=
                     \<lparr> clientName = map_option trim (q_clientName body),
                       clientPhone = Some [],
                       pickupLocation = map_option trim (q_pickupLocation body),
                       dropoffLocation = map_option trim (q_dropoffLocation body),
                       completedByDriver = True,
                       completedAt = Some now \<rparr>,
                   fare := \<lparr> total = parsedFare, perPerson = parsedFare,
                             halfFare = js_div parsedFare 2, gst = gst' \<rparr>,
                   driverNotes := (if blank (q_driverNotes body) then driverNotes ride0
                                   else map_option trim (q_driverNotes body)),
                   status := Completed,
                   droppedAt := Some now \<rparr>
             in
             case Ride_save i ride1 d1 of
               None \<Rightarrow> (Failure RIDE_VALIDATION_FAILED, d1)
             | Some d2 \<Rightarrow>
                (case populatedDriver d ride0 of
                   None \<Rightarrow> (Failure TYPE_ERROR, d2)
                 | Some rideDriver \<Rightarrow> (Success, User_setStatus (Some rideDriver) FREE d2)))))"

record self_assigned_body =
  sa_clientName :: "string option"
  sa_pickupLocation :: "string option"
  sa_dropoffLocation :: "string option"
  sa_fareTotal :: fare_input
  sa_passengers :: "int option"
  sa_driverNotes :: "string option"

text \<open>\<open>sa_passengers\<close> is \<open>parseInt(passengers)\<close>, \<open>None\<close> when that is \<open>NaN\<close>.\<close>

definition createSelfAssignedRide ::
  "actor \<Rightarrow> self_assigned_body \<Rightarrow> oid \<Rightarrow> oid \<Rightarrow> oid \<Rightarrow> oid \<Rightarrow> date \<Rightarrow> db \<Rightarrow> response \<times> db" where
  "createSelfAssignedRide usr body newRideId newClientId newFromId newToId now d =
    (if actorRole usr \<noteq> DRIVER then (Failure FORBIDDEN, d)
     else
      (case Shift_findOne [Cond_driver (actorId usr), Cond_status ''active''] (shifts d) of
         None \<Rightarrow> (Failure NO_ACTIVE_SHIFT, d)
       | Some activeShift \<Rightarrow>
         if blank (sa_clientName body) then (Failure VALIDATION_ERROR, d)
         else if blank (sa_pickupLocation body) then (Failure VALIDATION_ERROR, d)
         else if blank (sa_dropoffLocation body) then (Failure VALIDATION_ERROR, d)
         else
          (case sa_fareTotal body of
             Fare_absent \<Rightarrow> (Failure VALIDATION_ERROR, d)
           | Fare_NaN \<Rightarrow> (Failure VALIDATION_ERROR, d)
           | Fare_number v \<Rightarrow>
             if to_double v \<le> 0 then (Failure VALIDATION_ERROR, d)
             else
              (case sa_passengers body of
                 None \<Rightarrow> (Failure VALIDATION_ERROR, d)
               | Some parsedPassengers \<Rightarrow>
                 if parsedPassengers < 1 then (Failure VALIDATION_ERROR, d)
                 else
                  (let parsedFare = to_double v;
                       d1 = d\<lparr> clientIds := clientIds d @ [newClientId],
                                destinationIds := destinationIds d @ [newFromId, newToId] \<rparr>;
                       gst' = calculateGST d1 parsedFare;
                       perPersonFare = toFixed2 (js_div parsedFare (of_int parsedPassengers));
                       halfFare' = toFixed2 (js_div perPersonFare 2)
                   in
                   case Ride_create newRideId
                          \<lparr> bookingType = BT_immediate, isQuickTrip = False,
                            isSelfAssigned = True,
                            clients = [newClientId],
                            from_dest = Some newFromId, to_dest = Some newToId,
                            quickTripDetails = emptyQuickTripDetails,
                            passengers = parsedPassengers,
                            fare = \<lparr> total = parsedFare, perPerson = perPersonFare,
                                     halfFare = halfFare', gst = gst' \<rparr>,
                            driver = Some (actorId usr),
                            shift = Some (shiftId activeShift),
                            assignedBy = None,
                            status = Accepted,
                            driverNotes = Some (case sa_driverNotes body of
                                                  None \<Rightarrow> [] | Some n \<Rightarrow> trim n),
                            acceptedAt = Some now, startedAt = None, rejectedAt = None,
                            droppedAt = None, cancelledAt = None,
                            cancellationReason = None, cancellationNote = None,
                            abortedBy = None, abortedAt = None, abortReason = None,
                            abortNote = None \<rparr> d1 of
                     None \<Rightarrow> (Failure (INTERNAL_ERROR ''Ride.create failed''), d1)
                   | Some d2 \<Rightarrow> (Success, User_setStatus (Some (actorId usr)) ON_RIDE d2))))))"


section \<open>Requests that change the status of a ride\<close>

datatype request =
    UpdateRideStatus "ride_status option"
  | AcceptRide
  | RejectRide
  | StartRide
  | DropRide drop_body
  | CancelOngoingRide "string option" "string option"
  | AbortRide "string option" "string option"
  | AssignScheduledBooking "oid option"
  | CompleteQuickTripDetails quick_trip_body oid oid oid
  | ReassignRide "oid option"

fun handle :: "actor \<Rightarrow> oid \<Rightarrow> request \<Rightarrow> date \<Rightarrow> db \<Rightarrow> response \<times> db" where
  "handle usr i (UpdateRideStatus s) now d = updateRideStatus usr i s now d"
| "handle usr i AcceptRide now d = acceptRide usr i now d"
| "handle usr i RejectRide now d = rejectRide usr i now d"
| "handle usr i StartRide now d = startRide usr i now d"
| "handle usr i (DropRide body) now d = dropRide usr i body now d"
| "handle usr i (CancelOngoingRide reason note) now d = cancelOngoingRide usr i reason note now d"
| "handle usr i (AbortRide reason note) now d = abortRide usr i reason note now d"
| "handle usr i (AssignScheduledBooking drv) now d = assignScheduledBooking usr i drv d"
| "handle usr i (CompleteQuickTripDetails body c f t) now d =
     completeQuickTripDetails usr i body c f t now d"
| "handle usr i (ReassignRide drv) now d = reassignRide usr i drv d"


text \<open>The transition table of the specification, section 4.1.\<close>

definition transitionTable :: "(ride_status \<times> ride_status) list" where
  "transitionTable =
    [(Scheduled, Assigned),
     (Assigned, Accepted),
     (Assigned, Rejected),
     (Assigned, Cancelled), (Accepted, Cancelled), (Started, Cancelled),
     (Assigned, Aborted), (Accepted, Aborted),
     (Accepted, Started),
     (Started, Completed)]"


text \<open>A status either stays or moves along an edge of the table.\<close>

definition moved :: "ride_status \<Rightarrow> ride_status \<Rightarrow> bool" where
  "moved a b = (a = b \<or> (a, b) \<in> set transitionTable)"



section \<open>The invariant of the shift collection\<close>

definition oneActiveShiftPerDriver :: "shift_doc list \<Rightarrow> bool" where
  \<comment> \<open>no two active shifts have the same driver\<close>
  "oneActiveShiftPerDriver shs = distinct (map shiftDriver (filter isActive shs))"

definition hasActiveShift :: "oid \<Rightarrow> shift_doc list \<Rightarrow> bool" where
  "hasActiveShift u shs = list_ex (\<lambda>sh. shiftDriver sh = u \<and> isActive sh) shs"


section \<open>Example data\<close>

definition zeroStored :: stored_calculations where
  \<comment> \<open>the schema defaults of \<open>calculations\<close>\<close>
  "zeroStored = \<lparr> c_shiftTotalFares = 0, c_totalFareAndLiftings = 0, c_rentals = 0,
     c_subTotal = 0, c_tripLevy = 0, c_driverNetPay = 0, c_operatorEarnings = 0,
     c_rentalRateUsed = 45 \<rparr>"

definition draftReport :: "rat option \<Rightarrow> rat option \<Rightarrow> report" where
  \<comment> \<open>a draft with the given start and end meter totals and nothing else entered\<close>
  "draftReport s e =
    \<lparr> reportStatus = R_draft,
      shiftStartTotal = \<lparr> amount = s, photoUrl = None \<rparr>,
      shiftEndTotal = \<lparr> amount = e, photoUrl = None \<rparr>,
      liftings = Some 0, cashFares = Some 0,
      totalEFTPOS = \<lparr> amount = Some 0, photoUrl = None \<rparr>,
      totalAccountTrips = Some 0,
      cashExpenses = \<lparr> amount = Some 0, photoUrl = None \<rparr>,
      totalTripsCount = Count 0,
      calculations = zeroStored, submittedAt = None \<rparr>"

definition scenarioReport :: report where
  "scenarioReport = (draftReport (Some 100) (Some 250))
     \<lparr> liftings := Some 20, cashFares := Some 30, totalTripsCount := Count 10 \<rparr>"

definition scenarioResult :: calc_result where
  "scenarioResult =
    \<lparr> shiftTotalFares = 150, totalFareAndLiftings = 200, rentals = 90, subTotal = 90,
      tripLevy = to_double (132 / 10), driverNetPay = - to_double (1032 / 10),
      operatorEarnings = 110,
      rentalRateUsed = 45, partial = False,
      breakdown = \<lparr> shiftStart = 100, shiftEnd = 250, shiftDifference = 150,
        b_liftings = 20, b_cashFares = 30, b_totalEFTPOS = 0, b_totalAccountTrips = 0,
        b_cashExpenses = 0, b_totalTripsCount = 10 \<rparr> \<rparr>"

definition tenCentReport :: report where
  "tenCentReport = draftReport (Some 0) (Some (1 / 10))"

definition tenCentResult :: calc_result where
  \<comment> \<open>the doubles that print as 0.1, 0.1, 0.05, 0.05, 0, -0.04 and 0.06\<close>
  "tenCentResult =
    \<lparr> shiftTotalFares = to_double (1 / 10), totalFareAndLiftings = to_double (1 / 10),
      rentals = to_double (5 / 100), subTotal = to_double (5 / 100), tripLevy = 0,
      driverNetPay = - to_double (4 / 100), operatorEarnings = to_double (6 / 100),
      rentalRateUsed = 45, partial = False,
      breakdown = \<lparr> shiftStart = 0, shiftEnd = to_double (1 / 10),
        shiftDifference = to_double (1 / 10),
        b_liftings = 0, b_cashFares = 0, b_totalEFTPOS = 0, b_totalAccountTrips = 0,
        b_cashExpenses = 0, b_totalTripsCount = 0 \<rparr> \<rparr>"


definition noEndDraft :: report where
  \<comment> \<open>a draft with a start total of 100.00 and no end total yet\<close>
  "noEndDraft = draftReport (Some 100) None"

definition noUpdate :: update_data where
  "noUpdate = \<lparr> u_shiftStartTotal = None, u_shiftEndTotal = None, u_liftings = None,
     u_cashFares = None, u_totalEFTPOS = None, u_totalAccountTrips = None,
     u_cashExpenses = None, u_totalTripsCount = Undefined \<rparr>"

definition clearEndTotalUpdate :: update_data where
  \<comment> \<open>the body \<open>{ shiftEndTotal: { amount: null, photoUrl: "end.jpg" } }\<close>\<close>
  "clearEndTotalUpdate =
     noUpdate\<lparr> u_shiftEndTotal := Some \<lparr> amount = None, photoUrl = Some ''end.jpg'' \<rparr> \<rparr>"


definition fullRateSettings :: settings where
  \<comment> \<open>a rental rate of 100 percent, the largest that \<open>validateSettings\<close> admits\<close>
  "fullRateSettings = \<lparr> rentalRatePercentage = 100, tripLevyRate = to_double (132 / 100) \<rparr>"

definition negativeLiftingsReport :: report where
  "negativeLiftingsReport = (draftReport (Some 0) (Some 0)) \<lparr> liftings := Some (- 10) \<rparr>"

definition negativeLiftingsResult :: calc_result where
  "negativeLiftingsResult =
    \<lparr> shiftTotalFares = 0, totalFareAndLiftings = - 10, rentals = - 10,
      subTotal = - 10, tripLevy = 0, driverNetPay = 10, operatorEarnings = 0,
      rentalRateUsed = 100, partial = False,
      breakdown = \<lparr> shiftStart = 0, shiftEnd = 0, shiftDifference = 0,
        b_liftings = - 10, b_cashFares = 0, b_totalEFTPOS = 0, b_totalAccountTrips = 0,
        b_cashExpenses = 0, b_totalTripsCount = 0 \<rparr> \<rparr>"


definition manager1 :: actor where
  "manager1 = \<lparr> actorId = 1, actorRole = MANAGER \<rparr>"

definition driver10 :: actor where
  "driver10 = \<lparr> actorId = 10, actorRole = DRIVER \<rparr>"

definition exampleUsers :: "(oid \<times> user) list" where
  \<comment> \<open>a manager, the drivers 10 and 11 on a ride, the driver 12 free\<close>
  "exampleUsers =
    [(1, \<lparr> userRole = MANAGER, userStatus = FREE \<rparr>),
     (10, \<lparr> userRole = DRIVER, userStatus = ON_RIDE \<rparr>),
     (11, \<lparr> userRole = DRIVER, userStatus = ON_RIDE \<rparr>),
     (12, \<lparr> userRole = DRIVER, userStatus = FREE \<rparr>)]"

definition assignedRide :: ride where
  \<comment> \<open>a ride as \<open>assignRide\<close> creates it, assigned by the manager to driver 10\<close>
  "assignedRide =
    \<lparr> bookingType = BT_immediate, isQuickTrip = False, isSelfAssigned = False,
      clients = [1], from_dest = Some 1, to_dest = Some 2,
      quickTripDetails = emptyQuickTripDetails,
      passengers = 1,
      fare = \<lparr> total = 0, perPerson = 0, halfFare = 0, gst = 0 \<rparr>,
      driver = Some 10, shift = None, assignedBy = Some 1,
      status = Assigned, driverNotes = None,
      acceptedAt = None, startedAt = None, rejectedAt = None, droppedAt = None,
      cancelledAt = None, cancellationReason = None, cancellationNote = None,
      abortedBy = None, abortedAt = None, abortReason = None, abortNote = None \<rparr>"

definition activeShift10 :: shift_doc where
  "activeShift10 =
    \<lparr> shiftId = 500, shiftDriver = 10, taxiNumber = ''T1'', startMeter = 100,
      startMeterPhoto = ''pending'', startTime = 1, endTime = None, isActive = True \<rparr>"

definition exampleDb :: "ride \<Rightarrow> shift_doc list \<Rightarrow> db" where
  \<comment> \<open>a store with the given ride under the id 100 and the given shifts\<close>
  "exampleDb r shs =
    \<lparr> rides = [(100, r)], users = exampleUsers, shifts = shs,
      clientIds = [1, 2, 3, 4], destinationIds = [1, 2], gstSetting = None \<rparr>"

definition startedQuickTrip :: ride where
  \<comment> \<open>a quick trip as \<open>createQuickTrip\<close> creates it, then accepted and started\<close>
  "startedQuickTrip = assignedRide
    \<lparr> isQuickTrip := True, clients := [], from_dest := None, to_dest := None,
      shift := Some 500, status := Started, acceptedAt := Some 2, startedAt := Some 3 \<rparr>"

definition quickTripBody :: quick_trip_body where
  "quickTripBody =
    \<lparr> q_clientName = Some ''Ann'', q_pickupLocation = Some ''Station'',
      q_dropoffLocation = Some ''Airport'', q_fareTotal = Fare_number (10007 / 1000),
      q_driverNotes = None \<rparr>"

definition noDropBody :: drop_body where
  "noDropBody =
    \<lparr> fareTotal = Fare_absent, d_driverNotes = None, d_from = None, d_to = None,
      d_passengers = None, additionalClientIds = [], additionalClients = 0 \<rparr>"

definition selfAssignedBody :: self_assigned_body where
  "selfAssignedBody =
    \<lparr> sa_clientName = Some ''Ann'', sa_pickupLocation = Some ''Station'',
      sa_dropoffLocation = Some ''Airport'', sa_fareTotal = Fare_number 100,
      sa_passengers = Some 1, sa_driverNotes = None \<rparr>"


definition driver12 :: actor where
  "driver12 = \<lparr> actorId = 12, actorRole = DRIVER \<rparr>"

definition startedRide :: ride where
  \<comment> \<open>the ride of driver 10, accepted in shift 500 and started, with one client\<close>
  "startedRide = assignedRide
    \<lparr> shift := Some 500, status := Started, acceptedAt := Some 2, startedAt := Some 3 \<rparr>"

definition lateClientsBody :: drop_body where
  \<comment> \<open>a fare of 100 and three more clients, selected at completion\<close>
  "lateClientsBody = noDropBody
    \<lparr> fareTotal := Fare_number 100, additionalClientIds := [2, 3, 4] \<rparr>"


section \<open>Rounding to a double\<close>

lemma pow2_pos: "0 < pow2 k"
  by (simp add: pow2_def)

lemma pow2_powi: "pow2 k = 2 powi k"
  by (simp add: pow2_def power_int_def field_simps)

lemma pow2_diff: "pow2 (a - b) = pow2 a / pow2 b"
  by (simp add: pow2_powi power_int_diff)

lemma pow2_nat: "0 \<le> k \<Longrightarrow> pow2 k = of_int (2 ^ nat k)"
  by (simp add: pow2_def)

lemma bit_length_bounds:
  "0 < n \<Longrightarrow> 1 \<le> bit_length n \<and> 2 ^ nat (bit_length n - 1) \<le> n \<and> n < 2 ^ nat (bit_length n)"
proof (induction n rule: bit_length.induct)
  case (1 n)
  show ?case
  proof (cases "n div 2 \<le> 0")
    case True
    with \<open>0 < n\<close> have "n = 1" by linarith
    then have "bit_length n = 1"
      by (simp add: bit_length.simps [of 1] bit_length.simps [of 0])
    with \<open>n = 1\<close> show ?thesis by simp
  next
    case False
    then have m: "0 < n div 2" by simp
    with 1 have IH: "1 \<le> bit_length (n div 2)"
      "2 ^ nat (bit_length (n div 2) - 1) \<le> n div 2"
      "n div 2 < 2 ^ nat (bit_length (n div 2))"
      by simp_all
    from \<open>0 < n\<close> have bl: "bit_length n = 1 + bit_length (n div 2)"
      by (simp add: bit_length.simps [of n])
    from IH(1) have e: "nat (bit_length (n div 2)) = Suc (nat (bit_length (n div 2) - 1))"
      by simp
    have p: "(2::int) ^ nat (bit_length (n div 2)) = 2 * 2 ^ nat (bit_length (n div 2) - 1)"
      by (simp only: e power_Suc)
    have n: "2 * (n div 2) \<le> n" "n \<le> 2 * (n div 2) + 1" by linarith+
    from IH(1) bl have 1: "1 \<le> bit_length n" by simp
    from bl have x: "nat (bit_length n - 1) = nat (bit_length (n div 2))" by simp
    from bl IH(1) have y: "nat (bit_length n) = Suc (nat (bit_length (n div 2)))" by simp
    have 2: "2 ^ nat (bit_length n - 1) \<le> n"
      unfolding x using p IH(2) n by linarith
    have 3: "n < 2 ^ nat (bit_length n)"
      unfolding y power_Suc using IH(3) n by linarith
    from 1 2 3 show ?thesis by blast
  qed
qed

lemma binary_exponent_le:
  assumes "x \<noteq> 0"
  shows "pow2 (binary_exponent x) \<le> \<bar>x\<bar>"
proof -
  obtain p q where pq: "quotient_of \<bar>x\<bar> = (p, q)" by (cases "quotient_of \<bar>x\<bar>")
  then have q: "0 < q" and x: "\<bar>x\<bar> = of_int p / of_int q"
    by (simp_all add: quotient_of_denom_pos quotient_of_div)
  from assms have "0 < \<bar>x\<bar>" by simp
  with x q have p: "0 < p" by (simp add: zero_less_divide_iff)
  let ?k = "bit_length p - bit_length q"
  show ?thesis
  proof (cases "pow2 ?k \<le> \<bar>x\<bar>")
    case True
    then show ?thesis by (simp add: binary_exponent_def pq)
  next
    case False
    then have e: "binary_exponent x = bit_length p - 1 - bit_length q"
      by (simp add: binary_exponent_def pq)
    from bit_length_bounds [OF p] have "pow2 (bit_length p - 1) \<le> of_int p"
      by (simp add: pow2_nat)
    moreover from bit_length_bounds [OF q] have "of_int q \<le> pow2 (bit_length q)"
      by (simp add: pow2_nat less_imp_le)
    moreover have "(0::rat) < of_int q" using q by simp
    ultimately have "pow2 (bit_length p - 1) / pow2 (bit_length q) \<le> of_int p / of_int q"
      using pow2_pos [of "bit_length p - 1"] by (intro frac_le) simp_all
    then show ?thesis by (simp add: e x pow2_diff)
  qed
qed

lemma round_half_even_error: "\<bar>of_int (round_half_even m) - m\<bar> \<le> 1 / 2"
proof -
  have "of_int \<lfloor>m\<rfloor> \<le> m" "m < of_int \<lfloor>m\<rfloor> + 1" by linarith+
  then show ?thesis
    unfolding round_half_even_def Let_def by (auto simp add: abs_le_iff)
qed

lemma to_double_error: "\<bar>to_double x - x\<bar> \<le> \<bar>x\<bar> / 2 ^ 53 + 1 / 2 ^ 1075"
proof (cases "x = 0")
  case True
  then show ?thesis by (simp add: to_double_def)
next
  case False
  define e where "e = max (binary_exponent x) (- 1022)"
  define q where "q = pow2 (e - 52)"
  have q: "0 < q" by (simp add: q_def pow2_pos)
  have td: "to_double x = of_int (round_half_even (x / q)) * q"
    using False by (simp add: to_double_def e_def q_def Let_def)
  have "to_double x - x = (of_int (round_half_even (x / q)) - x / q) * q"
    using q by (simp add: td field_simps)
  then have "\<bar>to_double x - x\<bar> = \<bar>of_int (round_half_even (x / q)) - x / q\<bar> * q"
    using q by (simp add: abs_mult)
  also have "\<dots> \<le> 1 / 2 * q"
    using round_half_even_error [of "x / q"] q by (intro mult_right_mono) simp_all
  finally have half: "\<bar>to_double x - x\<bar> \<le> q / 2" by simp
  have "q \<le> \<bar>x\<bar> / 2 ^ 52 + 1 / 2 ^ 1074"
  proof (cases "- 1022 \<le> binary_exponent x")
    case True
    then have "q = pow2 (binary_exponent x) / pow2 52"
      by (simp add: q_def e_def pow2_diff)
    also have "\<dots> \<le> \<bar>x\<bar> / pow2 52"
      using binary_exponent_le [OF False] pow2_pos [of 52] by (simp add: divide_right_mono)
    finally show ?thesis by (simp add: pow2_def)
  next
    case False
    then have "q = pow2 (- 1074)" by (simp add: q_def e_def)
    then show ?thesis by (simp add: pow2_def)
  qed
  with half show ?thesis by simp
qed

lemma to_double_nonneg: "0 \<le> x \<Longrightarrow> 0 \<le> to_double x"
  by (simp add: to_double_def Let_def round_half_even_def pow2_pos less_imp_le)

lemma to_double_near:
  assumes "- (10 ^ 10) \<le> x" "x \<le> 10 ^ 10"
  shows "x - 2 / 10 ^ 6 \<le> to_double x" "to_double x \<le> x + 2 / 10 ^ 6"
proof -
  from assms have "\<bar>x\<bar> \<le> 10 ^ 10" by simp
  then have "\<bar>x\<bar> / 2 ^ 53 \<le> 10 ^ 10 / 2 ^ 53" by (simp add: divide_right_mono)
  moreover have "(10 ^ 10 / 2 ^ 53 + 1 / 2 ^ 1075 :: rat) \<le> 2 / 10 ^ 6" by simp
  ultimately have "\<bar>to_double x - x\<bar> \<le> 2 / 10 ^ 6"
    using to_double_error [of x] by linarith
  then show "x - 2 / 10 ^ 6 \<le> to_double x" "to_double x \<le> x + 2 / 10 ^ 6" by linarith+
qed

lemma to_double_near_product:
  assumes "- (10 ^ 12) \<le> x" "x \<le> 10 ^ 12"
  shows "x - 2 / 10 ^ 4 \<le> to_double x" "to_double x \<le> x + 2 / 10 ^ 4"
proof -
  from assms have "\<bar>x\<bar> \<le> 10 ^ 12" by simp
  then have "\<bar>x\<bar> / 2 ^ 53 \<le> 10 ^ 12 / 2 ^ 53" by (simp add: divide_right_mono)
  moreover have "(10 ^ 12 / 2 ^ 53 + 1 / 2 ^ 1075 :: rat) \<le> 2 / 10 ^ 4" by simp
  ultimately have "\<bar>to_double x - x\<bar> \<le> 2 / 10 ^ 4"
    using to_double_error [of x] by linarith
  then show "x - 2 / 10 ^ 4 \<le> to_double x" "to_double x \<le> x + 2 / 10 ^ 4" by linarith+
qed


section \<open>Rounding to cents\<close>

lemma eps_small: "0 < NUMBER_EPSILON" "100 * NUMBER_EPSILON \<le> 1 / 10 ^ 6"
  by (simp_all add: NUMBER_EPSILON_def)

text \<open>
  \<open>round2\<close> of an amount below nine thousand million returns the double
  next to a whole number of cents, and that number is within half a cent of
  the amount, up to a thousandth of a cent.
\<close>

lemma round2_cents:
  assumes "- (9 * 10 ^ 9) \<le> v" "v \<le> 9 * 10 ^ 9"
  shows "\<exists>k::int. - (501 / 1000) \<le> of_int k - 100 * v \<and> of_int k - 100 * v \<le> 501 / 1000
           \<and> of_int k / 100 - 2 / 10 ^ 6 \<le> round2 v \<and> round2 v \<le> of_int k / 100 + 2 / 10 ^ 6"
proof -
  define a where "a = js_add v NUMBER_EPSILON"
  define b where "b = js_mul a 100"
  define k where "k = Math_round b"
  have r: "round2 v = to_double (of_int k / 100)"
    by (simp add: round2_def k_def b_def a_def js_div_def)
  have "- (10 ^ 10) \<le> v + NUMBER_EPSILON" "v + NUMBER_EPSILON \<le> 10 ^ 10"
    using assms eps_small by (simp; linarith)+
  from to_double_near [OF this]
  have a: "v + NUMBER_EPSILON - 2 / 10 ^ 6 \<le> a" "a \<le> v + NUMBER_EPSILON + 2 / 10 ^ 6"
    by (simp_all add: a_def js_add_def)
  then have "- (10 ^ 12) \<le> a * 100" "a * 100 \<le> 10 ^ 12"
    using assms eps_small by (simp; linarith)+
  from to_double_near_product [OF this]
  have b: "a * 100 - 2 / 10 ^ 4 \<le> b" "b \<le> a * 100 + 2 / 10 ^ 4"
    by (simp_all add: b_def js_mul_def)
  have k: "b - 1 / 2 < of_int k" "of_int k \<le> b + 1 / 2"
    unfolding k_def Math_round_def by linarith+
  have 1: "- (501 / 1000) \<le> of_int k - 100 * v" "of_int k - 100 * v \<le> 501 / 1000"
    using a b k eps_small by (simp; linarith)+
  then have "- (10 ^ 10) \<le> (of_int k :: rat) / 100" "(of_int k :: rat) / 100 \<le> 10 ^ 10"
    using assms by (simp; linarith)+
  from to_double_near [OF this] r
  have 2: "of_int k / 100 - 2 / 10 ^ 6 \<le> round2 v" "round2 v \<le> of_int k / 100 + 2 / 10 ^ 6"
    by simp_all
  from 1 2 show ?thesis by blast
qed

lemma round2_near:
  assumes "- (9 * 10 ^ 9) \<le> v" "v \<le> 9 * 10 ^ 9"
  shows "v - 5012 / 10 ^ 6 \<le> round2 v" "round2 v \<le> v + 5012 / 10 ^ 6"
proof -
  from round2_cents [OF assms] obtain k :: int where
    "- (501 / 1000) \<le> of_int k - 100 * v" "of_int k - 100 * v \<le> 501 / 1000"
    "of_int k / 100 - 2 / 10 ^ 6 \<le> round2 v" "round2 v \<le> of_int k / 100 + 2 / 10 ^ 6"
    by blast
  then show "v - 5012 / 10 ^ 6 \<le> round2 v" "round2 v \<le> v + 5012 / 10 ^ 6"
    by (simp; linarith)+
qed

lemma round2_nonneg: "0 \<le> x \<Longrightarrow> 0 \<le> round2 x"
proof -
  assume "0 \<le> x"
  then have "0 \<le> js_add x NUMBER_EPSILON"
    using eps_small by (simp add: js_add_def to_double_nonneg)
  then have "0 \<le> js_mul (js_add x NUMBER_EPSILON) 100"
    by (simp add: js_mul_def to_double_nonneg)
  then have "0 \<le> Math_round (js_mul (js_add x NUMBER_EPSILON) 100)"
    by (simp add: Math_round_def)
  then show ?thesis
    by (simp add: round2_def js_div_def to_double_nonneg)
qed

text \<open>
  Three whole numbers of cents whose sum is below two cents in absolute value
  add up to at most one cent.
\<close>

lemma whole_cents:
  fixes k :: int
  assumes "- 2 < (of_int k :: rat)" "(of_int k :: rat) < 2"
  shows "- 1 \<le> (of_int k :: rat)" "(of_int k :: rat) \<le> 1"
proof -
  from assms have "(of_int (- 2) :: rat) < of_int k" "(of_int k :: rat) < of_int 2"
    by simp_all
  then have "- 2 < k" "k < 2" by (simp_all only: of_int_less_iff)
  then have "- 1 \<le> k" "k \<le> 1" by simp_all
  then have "(of_int (- 1) :: rat) \<le> of_int k" "(of_int k :: rat) \<le> of_int 1"
    by (simp_all only: of_int_le_iff)
  then show "- 1 \<le> (of_int k :: rat)" "(of_int k :: rat) \<le> 1" by simp_all
qed

lemma abs_leD:
  fixes x :: rat
  assumes "\<bar>x\<bar> \<le> c"
  shows "- c \<le> x" "x \<le> c"
  using assms by linarith+

lemma scale_bound:
  fixes d :: rat
  assumes "- c \<le> d" "d \<le> c" "0 \<le> r" "r \<le> m"
  shows "- (c * m) \<le> d * r" "d * r \<le> c * m"
proof -
  from assms have c: "0 \<le> c" by linarith
  from assms c show "d * r \<le> c * m" by (intro mult_mono) simp_all
  from assms c have "(- d) * r \<le> c * m" by (intro mult_mono) simp_all
  then show "- (c * m) \<le> d * r" by simp
qed


section \<open>The reconciliation formulas\<close>

text \<open>
  The unrounded values of \<open>calculateReportTotals\<close>, computed in doubles from
  amounts of at most \<open>10\<^sup>9\<close>, a rate between 0 and 100 and a levy of at most
  \<open>10\<^sup>9\<close> in all, stay below nine thousand million and differ from the exact
  values of the formulas by less than a hundredth of a cent.
\<close>

lemma unrounded_values:
  fixes s e l cf eft acc ex n rate levy :: rat
  assumes s: "- (10 ^ 9) \<le> s" "s \<le> 10 ^ 9" and e: "- (10 ^ 9) \<le> e" "e \<le> 10 ^ 9"
    and l: "- (10 ^ 9) \<le> l" "l \<le> 10 ^ 9" and cf: "- (10 ^ 9) \<le> cf" "cf \<le> 10 ^ 9"
    and eft: "- (10 ^ 9) \<le> eft" "eft \<le> 10 ^ 9" and acc: "- (10 ^ 9) \<le> acc" "acc \<le> 10 ^ 9"
    and ex: "- (10 ^ 9) \<le> ex" "ex \<le> 10 ^ 9"
    and n: "- (10 ^ 6) \<le> n" "n \<le> 10 ^ 6"
    and rate: "0 \<le> rate" "rate \<le> 100" and levy: "0 \<le> levy" "levy \<le> 1000"
  defines "stf \<equiv> js_sub e s"
    and "tfl \<equiv> js_add (js_add (js_sub e s) l) cf"
    and "rent \<equiv> js_div (js_mul (js_add (js_add (js_sub e s) l) cf) rate) 100"
    and "tlv \<equiv> js_mul n levy"
  defines "sub \<equiv> js_sub rent (js_add (js_add eft acc) ex)"
  defines "dnp \<equiv> - js_add sub tlv"
    and "oe \<equiv> js_sub tfl rent"
  shows "\<bar>stf - (e - s)\<bar> \<le> 2 / 10 ^ 5 \<and> \<bar>stf\<bar> \<le> 9 * 10 ^ 9"
    and "\<bar>tfl - (e - s + l + cf)\<bar> \<le> 2 / 10 ^ 5 \<and> \<bar>tfl\<bar> \<le> 9 * 10 ^ 9"
    and "\<bar>rent - (e - s + l + cf) * rate / 100\<bar> \<le> 2 / 10 ^ 5 \<and> \<bar>rent\<bar> \<le> 9 * 10 ^ 9"
    and "\<bar>sub - ((e - s + l + cf) * rate / 100 - (eft + acc + ex))\<bar> \<le> 2 / 10 ^ 5
         \<and> \<bar>sub\<bar> \<le> 9 * 10 ^ 9"
    and "\<bar>tlv - n * levy\<bar> \<le> 2 / 10 ^ 5 \<and> \<bar>tlv\<bar> \<le> 9 * 10 ^ 9"
    and "\<bar>dnp - (- ((e - s + l + cf) * rate / 100 - (eft + acc + ex) + n * levy))\<bar> \<le> 2 / 10 ^ 5
         \<and> \<bar>dnp\<bar> \<le> 9 * 10 ^ 9"
    and "\<bar>oe - (e - s + l + cf - (e - s + l + cf) * rate / 100)\<bar> \<le> 2 / 10 ^ 5
         \<and> \<bar>oe\<bar> \<le> 9 * 10 ^ 9"
    and "\<bar>dnp + (sub + tlv)\<bar> \<le> 2 / 10 ^ 6"
    and "\<bar>oe - (tfl - rent)\<bar> \<le> 2 / 10 ^ 6"
proof -
  define X where "X = e - s + l + cf"
  define t1 where "t1 = js_add stf l"
  define m where "m = js_mul tfl rate"
  define s1 where "s1 = js_add eft acc"
  define s2 where "s2 = js_add s1 ex"
  have tfl: "tfl = js_add t1 cf" by (simp add: tfl_def t1_def stf_def)
  have rent: "rent = js_div m 100" by (simp add: rent_def m_def tfl_def)
  have sub: "sub = js_sub rent s2" by (simp add: sub_def s2_def s1_def)
  \<comment> \<open>the total of fares and liftings\<close>
  have "- (10 ^ 10) \<le> e - s" "e - s \<le> 10 ^ 10" using s e by (simp; linarith)+
  from to_double_near [OF this]
  have 1: "e - s - 2 / 10 ^ 6 \<le> stf" "stf \<le> e - s + 2 / 10 ^ 6"
    by (simp_all add: stf_def js_sub_def)
  have "- (10 ^ 10) \<le> stf + l" "stf + l \<le> 10 ^ 10" using 1 s e l by (simp; linarith)+
  from to_double_near [OF this]
  have 2: "stf + l - 2 / 10 ^ 6 \<le> t1" "t1 \<le> stf + l + 2 / 10 ^ 6"
    by (simp_all add: t1_def js_add_def)
  have "- (10 ^ 10) \<le> t1 + cf" "t1 + cf \<le> 10 ^ 10" using 1 2 s e l cf by (simp; linarith)+
  from to_double_near [OF this]
  have 3: "t1 + cf - 2 / 10 ^ 6 \<le> tfl" "tfl \<le> t1 + cf + 2 / 10 ^ 6"
    by (simp_all add: tfl js_add_def)
  have 4: "- (6 / 10 ^ 6) \<le> tfl - X" "tfl - X \<le> 6 / 10 ^ 6"
    using 1 2 3 by (simp_all add: X_def)
  have X: "- (4 * 10 ^ 9) \<le> X" "X \<le> 4 * 10 ^ 9"
    using s e l cf by (simp_all add: X_def)
  \<comment> \<open>the rentals\<close>
  have 5: "- (4 * 10 ^ 9 * 100) \<le> X * rate" "X * rate \<le> 4 * 10 ^ 9 * 100"
    using scale_bound [OF X rate] by simp_all
  have 6: "- (6 / 10 ^ 6 * 100) \<le> (tfl - X) * rate" "(tfl - X) * rate \<le> 6 / 10 ^ 6 * 100"
    using scale_bound [OF 4 rate] by simp_all
  have 7: "tfl * rate = X * rate + (tfl - X) * rate" by (simp add: algebra_simps)
  have "- (10 ^ 12) \<le> tfl * rate" "tfl * rate \<le> 10 ^ 12" using 5 6 7 by (simp; linarith)+
  from to_double_near_product [OF this]
  have 8: "tfl * rate - 2 / 10 ^ 4 \<le> m" "m \<le> tfl * rate + 2 / 10 ^ 4"
    by (simp_all add: m_def js_mul_def)
  have "- (10 ^ 10) \<le> m / 100" "m / 100 \<le> 10 ^ 10" using 5 6 7 8 by (simp; linarith)+
  from to_double_near [OF this]
  have 9: "m / 100 - 2 / 10 ^ 6 \<le> rent" "rent \<le> m / 100 + 2 / 10 ^ 6"
    by (simp_all add: rent js_div_def)
  have 10: "- (1 / 10 ^ 5) \<le> rent - X * rate / 100" "rent - X * rate / 100 \<le> 1 / 10 ^ 5"
    using 6 7 8 9 by (simp; linarith)+
  \<comment> \<open>the sub-total\<close>
  have "- (10 ^ 10) \<le> eft + acc" "eft + acc \<le> 10 ^ 10" using eft acc by (simp; linarith)+
  from to_double_near [OF this]
  have 11: "eft + acc - 2 / 10 ^ 6 \<le> s1" "s1 \<le> eft + acc + 2 / 10 ^ 6"
    by (simp_all add: s1_def js_add_def)
  have "- (10 ^ 10) \<le> s1 + ex" "s1 + ex \<le> 10 ^ 10" using 11 eft acc ex by (simp; linarith)+
  from to_double_near [OF this]
  have 12: "s1 + ex - 2 / 10 ^ 6 \<le> s2" "s2 \<le> s1 + ex + 2 / 10 ^ 6"
    by (simp_all add: s2_def js_add_def)
  have "- (10 ^ 10) \<le> rent - s2" "rent - s2 \<le> 10 ^ 10"
    using 5 10 11 12 eft acc ex by (simp; linarith)+
  from to_double_near [OF this]
  have 13: "rent - s2 - 2 / 10 ^ 6 \<le> sub" "sub \<le> rent - s2 + 2 / 10 ^ 6"
    by (simp_all add: sub js_sub_def)
  \<comment> \<open>the levy\<close>
  have 14: "- (10 ^ 6 * 1000) \<le> n * levy" "n * levy \<le> 10 ^ 6 * 1000"
    using scale_bound [OF n levy] by simp_all
  then have "- (10 ^ 10) \<le> n * levy" "n * levy \<le> 10 ^ 10" by (simp; linarith)+
  from to_double_near [OF this]
  have 15: "n * levy - 2 / 10 ^ 6 \<le> tlv" "tlv \<le> n * levy + 2 / 10 ^ 6"
    by (simp_all add: tlv_def js_mul_def)
  \<comment> \<open>the net pay and the earnings\<close>
  have "- (10 ^ 10) \<le> sub + tlv" "sub + tlv \<le> 10 ^ 10"
    using 5 10 11 12 13 14 15 eft acc ex by (simp; linarith)+
  from to_double_near [OF this]
  have 16: "sub + tlv - 2 / 10 ^ 6 \<le> - dnp" "- dnp \<le> sub + tlv + 2 / 10 ^ 6"
    by (simp_all add: dnp_def js_add_def)
  have "- (10 ^ 10) \<le> tfl - rent" "tfl - rent \<le> 10 ^ 10"
    using 4 5 10 X by (simp; linarith)+
  from to_double_near [OF this]
  have 17: "tfl - rent - 2 / 10 ^ 6 \<le> oe" "oe \<le> tfl - rent + 2 / 10 ^ 6"
    by (simp_all add: oe_def js_sub_def)
  have r1: "\<bar>stf - (e - s)\<bar> \<le> 2 / 10 ^ 5 \<and> \<bar>stf\<bar> \<le> 9 * 10 ^ 9"
    using 1 s e unfolding abs_le_iff by (intro conjI) (simp; linarith)+
  have r2: "\<bar>tfl - X\<bar> \<le> 2 / 10 ^ 5 \<and> \<bar>tfl\<bar> \<le> 9 * 10 ^ 9"
    using 4 X unfolding abs_le_iff by (intro conjI) (simp; linarith)+
  have r3: "\<bar>rent - X * rate / 100\<bar> \<le> 2 / 10 ^ 5 \<and> \<bar>rent\<bar> \<le> 9 * 10 ^ 9"
    using 5 10 unfolding abs_le_iff by (intro conjI) (simp; linarith)+
  have r4: "\<bar>sub - (X * rate / 100 - (eft + acc + ex))\<bar> \<le> 2 / 10 ^ 5 \<and> \<bar>sub\<bar> \<le> 9 * 10 ^ 9"
    using 5 10 11 12 13 eft acc ex unfolding abs_le_iff by (intro conjI) (simp; linarith)+
  have r5: "\<bar>tlv - n * levy\<bar> \<le> 2 / 10 ^ 5 \<and> \<bar>tlv\<bar> \<le> 9 * 10 ^ 9"
    using 14 15 unfolding abs_le_iff by (intro conjI) (simp; linarith)+
  have r6: "\<bar>dnp - (- (X * rate / 100 - (eft + acc + ex) + n * levy))\<bar> \<le> 2 / 10 ^ 5
         \<and> \<bar>dnp\<bar> \<le> 9 * 10 ^ 9"
    using 5 10 11 12 13 14 15 16 eft acc ex unfolding abs_le_iff
    by (intro conjI) (simp; linarith)+
  have r7: "\<bar>oe - (X - X * rate / 100)\<bar> \<le> 2 / 10 ^ 5 \<and> \<bar>oe\<bar> \<le> 9 * 10 ^ 9"
    using 4 5 10 17 X unfolding abs_le_iff by (intro conjI) (simp; linarith)+
  from r1 show "\<bar>stf - (e - s)\<bar> \<le> 2 / 10 ^ 5 \<and> \<bar>stf\<bar> \<le> 9 * 10 ^ 9" .
  from r2 show "\<bar>tfl - (e - s + l + cf)\<bar> \<le> 2 / 10 ^ 5 \<and> \<bar>tfl\<bar> \<le> 9 * 10 ^ 9"
    unfolding X_def .
  from r3 show "\<bar>rent - (e - s + l + cf) * rate / 100\<bar> \<le> 2 / 10 ^ 5 \<and> \<bar>rent\<bar> \<le> 9 * 10 ^ 9"
    unfolding X_def .
  from r4 show "\<bar>sub - ((e - s + l + cf) * rate / 100 - (eft + acc + ex))\<bar> \<le> 2 / 10 ^ 5
         \<and> \<bar>sub\<bar> \<le> 9 * 10 ^ 9"
    unfolding X_def .
  from r5 show "\<bar>tlv - n * levy\<bar> \<le> 2 / 10 ^ 5 \<and> \<bar>tlv\<bar> \<le> 9 * 10 ^ 9" .
  from r6 show "\<bar>dnp - (- ((e - s + l + cf) * rate / 100 - (eft + acc + ex) + n * levy))\<bar> \<le> 2 / 10 ^ 5
         \<and> \<bar>dnp\<bar> \<le> 9 * 10 ^ 9"
    unfolding X_def .
  from r7 show "\<bar>oe - (e - s + l + cf - (e - s + l + cf) * rate / 100)\<bar> \<le> 2 / 10 ^ 5
         \<and> \<bar>oe\<bar> \<le> 9 * 10 ^ 9"
    unfolding X_def .
  show "\<bar>dnp + (sub + tlv)\<bar> \<le> 2 / 10 ^ 6"
    using 16 unfolding abs_le_iff by (intro conjI) (simp; linarith)+
  show "\<bar>oe - (tfl - rent)\<bar> \<le> 2 / 10 ^ 6"
    using 17 unfolding abs_le_iff by (intro conjI) (simp; linarith)+
qed

text \<open>
  Rounding keeps an amount within 0.0051 of the exact value that its
  unrounded value approximates.
\<close>

lemma round2_close:
  assumes "\<bar>v - x\<bar> \<le> 2 / 10 ^ 5 \<and> \<bar>v\<bar> \<le> 9 * 10 ^ 9"
  shows "\<bar>round2 v - x\<bar> \<le> 51 / 10000"
proof -
  from assms have vx: "\<bar>v - x\<bar> \<le> 2 / 10 ^ 5" and av: "\<bar>v\<bar> \<le> 9 * 10 ^ 9"
    by blast+
  note v = abs_leD [OF av]
  from round2_near [OF v] abs_leD [OF vx] show ?thesis
    unfolding abs_le_iff by (intro conjI) (simp; linarith)+
qed

text \<open>
  Over the rounded values an equation between three unrounded values holds
  up to one cent.
\<close>

lemma round2_sum:
  assumes a: "\<bar>a\<bar> \<le> 9 * 10 ^ 9" and b: "\<bar>b\<bar> \<le> 9 * 10 ^ 9" and c: "\<bar>c\<bar> \<le> 9 * 10 ^ 9"
    and eq: "\<bar>a + (b + c)\<bar> \<le> 2 / 10 ^ 6"
  shows "\<bar>round2 a + (round2 b + round2 c)\<bar> \<le> 1 / 100 + 1 / 10 ^ 5"
proof -
  from a have "- (9 * 10 ^ 9) \<le> a" "a \<le> 9 * 10 ^ 9" by (rule abs_leD)+
  from round2_cents [OF this] obtain i :: int where
    i: "- (501 / 1000) \<le> of_int i - 100 * a" "of_int i - 100 * a \<le> 501 / 1000"
       "of_int i / 100 - 2 / 10 ^ 6 \<le> round2 a" "round2 a \<le> of_int i / 100 + 2 / 10 ^ 6"
    by blast
  from b have "- (9 * 10 ^ 9) \<le> b" "b \<le> 9 * 10 ^ 9" by (rule abs_leD)+
  from round2_cents [OF this] obtain j :: int where
    j: "- (501 / 1000) \<le> of_int j - 100 * b" "of_int j - 100 * b \<le> 501 / 1000"
       "of_int j / 100 - 2 / 10 ^ 6 \<le> round2 b" "round2 b \<le> of_int j / 100 + 2 / 10 ^ 6"
    by blast
  from c have "- (9 * 10 ^ 9) \<le> c" "c \<le> 9 * 10 ^ 9" by (rule abs_leD)+
  from round2_cents [OF this] obtain k :: int where
    k: "- (501 / 1000) \<le> of_int k - 100 * c" "of_int k - 100 * c \<le> 501 / 1000"
       "of_int k / 100 - 2 / 10 ^ 6 \<le> round2 c" "round2 c \<le> of_int k / 100 + 2 / 10 ^ 6"
    by blast
  from eq have e: "- (2 / 10 ^ 6) \<le> a + (b + c)" "a + (b + c) \<le> 2 / 10 ^ 6"
    by (rule abs_leD)+
  have s: "(of_int (i + j + k) :: rat) = of_int i + of_int j + of_int k" by simp
  have "- 2 < (of_int (i + j + k) :: rat)" "(of_int (i + j + k) :: rat) < 2"
    unfolding s using i(1,2) j(1,2) k(1,2) e by (simp; linarith)+
  from whole_cents [OF this]
  have "- 1 \<le> (of_int i :: rat) + of_int j + of_int k" "(of_int i :: rat) + of_int j + of_int k \<le> 1"
    unfolding s .
  with i(3,4) j(3,4) k(3,4) show ?thesis
    unfolding abs_le_iff by (intro conjI) (simp; linarith)+
qed

lemma round2_difference:
  assumes a: "\<bar>a\<bar> \<le> 9 * 10 ^ 9" and b: "\<bar>b\<bar> \<le> 9 * 10 ^ 9" and c: "\<bar>c\<bar> \<le> 9 * 10 ^ 9"
    and eq: "\<bar>a - (b - c)\<bar> \<le> 2 / 10 ^ 6"
  shows "\<bar>round2 a - (round2 b - round2 c)\<bar> \<le> 1 / 100 + 1 / 10 ^ 5"
proof -
  from a have "- (9 * 10 ^ 9) \<le> a" "a \<le> 9 * 10 ^ 9" by (rule abs_leD)+
  from round2_cents [OF this] obtain i :: int where
    i: "- (501 / 1000) \<le> of_int i - 100 * a" "of_int i - 100 * a \<le> 501 / 1000"
       "of_int i / 100 - 2 / 10 ^ 6 \<le> round2 a" "round2 a \<le> of_int i / 100 + 2 / 10 ^ 6"
    by blast
  from b have "- (9 * 10 ^ 9) \<le> b" "b \<le> 9 * 10 ^ 9" by (rule abs_leD)+
  from round2_cents [OF this] obtain j :: int where
    j: "- (501 / 1000) \<le> of_int j - 100 * b" "of_int j - 100 * b \<le> 501 / 1000"
       "of_int j / 100 - 2 / 10 ^ 6 \<le> round2 b" "round2 b \<le> of_int j / 100 + 2 / 10 ^ 6"
    by blast
  from c have "- (9 * 10 ^ 9) \<le> c" "c \<le> 9 * 10 ^ 9" by (rule abs_leD)+
  from round2_cents [OF this] obtain k :: int where
    k: "- (501 / 1000) \<le> of_int k - 100 * c" "of_int k - 100 * c \<le> 501 / 1000"
       "of_int k / 100 - 2 / 10 ^ 6 \<le> round2 c" "round2 c \<le> of_int k / 100 + 2 / 10 ^ 6"
    by blast
  from eq have e: "- (2 / 10 ^ 6) \<le> a - (b - c)" "a - (b - c) \<le> 2 / 10 ^ 6"
    by (rule abs_leD)+
  have s: "(of_int (i - j + k) :: rat) = of_int i - of_int j + of_int k" by simp
  have "- 2 < (of_int (i - j + k) :: rat)" "(of_int (i - j + k) :: rat) < 2"
    unfolding s using i(1,2) j(1,2) k(1,2) e by (simp; linarith)+
  from whole_cents [OF this]
  have "- 1 \<le> (of_int i :: rat) - of_int j + of_int k" "(of_int i :: rat) - of_int j + of_int k \<le> 1"
    unfolding s .
  with i(3,4) j(3,4) k(3,4) show ?thesis
    unfolding abs_le_iff by (intro conjI) (simp; linarith)+
qed

text \<open>
  With an end total that is not below the start total, the calculation takes
  the full branch whatever \<open>allowPartial\<close> is.
\<close>

lemma calculateReportTotals_complete:
  assumes "num (amount (shiftStartTotal r)) \<le> num (amount (shiftEndTotal r))"
  shows "calculateReportTotals (Some r) st allowPartial =
    (let shiftTotalFares' = js_sub (num (amount (shiftEndTotal r))) (num (amount (shiftStartTotal r)));
         totalFareAndLiftings' = js_add (js_add shiftTotalFares' (num (liftings r))) (num (cashFares r));
         rentals' = js_div (js_mul totalFareAndLiftings' (rentalRatePercentage st)) 100;
         subTotal' = js_sub rentals'
                       (js_add (js_add (num (amount (totalEFTPOS r))) (num (totalAccountTrips r)))
                          (num (amount (cashExpenses r))));
         tripLevy' = js_mul (int_js (totalTripsCount r)) (tripLevyRate st)
     in Inr \<lparr> shiftTotalFares = round2 shiftTotalFares',
              totalFareAndLiftings = round2 totalFareAndLiftings',
              rentals = round2 rentals',
              subTotal = round2 subTotal',
              tripLevy = round2 tripLevy',
              driverNetPay = round2 (- js_add subTotal' tripLevy'),
              operatorEarnings = round2 (js_sub totalFareAndLiftings' rentals'),
              rentalRateUsed = rentalRatePercentage st,
              partial = False,
              breakdown =
                \<lparr> shiftStart = num (amount (shiftStartTotal r)),
                  shiftEnd = num (amount (shiftEndTotal r)),
                  shiftDifference = shiftTotalFares',
                  b_liftings = num (liftings r), b_cashFares = num (cashFares r),
                  b_totalEFTPOS = num (amount (totalEFTPOS r)),
                  b_totalAccountTrips = num (totalAccountTrips r),
                  b_cashExpenses = num (amount (cashExpenses r)),
                  b_totalTripsCount = int_js (totalTripsCount r) \<rparr> \<rparr>)"
  using assms by (simp add: calculateReportTotals_def canCalculateTotals_def Let_def)

text \<open>
  Claim C1, as the code has it.  For every report whose end total is not
  below its start total, with amounts of at most \<open>10\<^sup>9\<close>, at most \<open>10\<^sup>6\<close> trips, a
  rental rate between 0 and 100 and a levy between 0 and 1000,
  \<open>calculateReportTotals\<close> returns a result that is not partial.  Each of the
  seven amounts is \<open>round2\<close> of the formula of the specification, computed in
  doubles, and is within 0.0051 of the exact value of that formula.  The two
  equations \<open>driverNetPay = -(subTotal + tripLevy)\<close> and
  \<open>operatorEarnings = totalFareAndLiftings - rentals\<close> hold over the returned
  fields up to one cent (and the 0.00001 that the doubles next to three
  amounts in cents may add).
\<close>

theorem calculateReportTotals_formulas:
  assumes valid: "num (amount (shiftStartTotal r)) \<le> num (amount (shiftEndTotal r))"
    and amounts: "list_all (\<lambda>x. \<bar>x\<bar> \<le> 10 ^ 9) (amounts r)"
    and trips: "\<bar>int_js (totalTripsCount r)\<bar> \<le> 10 ^ 6"
    and rate: "0 \<le> rentalRatePercentage st" "rentalRatePercentage st \<le> 100"
    and levy: "0 \<le> tripLevyRate st" "tripLevyRate st \<le> 1000"
  shows
   "let s = num (amount (shiftStartTotal r)); e = num (amount (shiftEndTotal r));
        l = num (liftings r); cf = num (cashFares r);
        eft = num (amount (totalEFTPOS r)); acc = num (totalAccountTrips r);
        ex = num (amount (cashExpenses r)); n = int_js (totalTripsCount r);
        rate = rentalRatePercentage st; levy = tripLevyRate st;
        shiftTotalFares' = js_sub e s;
        totalFareAndLiftings' = js_add (js_add shiftTotalFares' l) cf;
        rentals' = js_div (js_mul totalFareAndLiftings' rate) 100;
        subTotal' = js_sub rentals' (js_add (js_add eft acc) ex);
        tripLevy' = js_mul n levy;
        total = e - s + l + cf
    in \<exists>c. calculateReportTotals (Some r) st allowPartial = Inr c
         \<and> partial c = False
         \<and> shiftTotalFares c = round2 shiftTotalFares'
         \<and> totalFareAndLiftings c = round2 totalFareAndLiftings'
         \<and> rentals c = round2 rentals'
         \<and> subTotal c = round2 subTotal'
         \<and> tripLevy c = round2 tripLevy'
         \<and> driverNetPay c = round2 (- js_add subTotal' tripLevy')
         \<and> operatorEarnings c = round2 (js_sub totalFareAndLiftings' rentals')
         \<and> \<bar>shiftTotalFares c - (e - s)\<bar> \<le> 51 / 10000
         \<and> \<bar>totalFareAndLiftings c - total\<bar> \<le> 51 / 10000
         \<and> \<bar>rentals c - total * rate / 100\<bar> \<le> 51 / 10000
         \<and> \<bar>subTotal c - (total * rate / 100 - (eft + acc + ex))\<bar> \<le> 51 / 10000
         \<and> \<bar>tripLevy c - n * levy\<bar> \<le> 51 / 10000
         \<and> \<bar>driverNetPay c - (- (total * rate / 100 - (eft + acc + ex) + n * levy))\<bar> \<le> 51 / 10000
         \<and> \<bar>operatorEarnings c - (total - total * rate / 100)\<bar> \<le> 51 / 10000
         \<and> \<bar>driverNetPay c + (subTotal c + tripLevy c)\<bar> \<le> 1 / 100 + 1 / 10 ^ 5
         \<and> \<bar>operatorEarnings c - (totalFareAndLiftings c - rentals c)\<bar> \<le> 1 / 100 + 1 / 10 ^ 5"
proof -
  from amounts have a:
    "\<bar>num (amount (shiftStartTotal r))\<bar> \<le> 10 ^ 9" "\<bar>num (amount (shiftEndTotal r))\<bar> \<le> 10 ^ 9"
    "\<bar>num (liftings r)\<bar> \<le> 10 ^ 9" "\<bar>num (cashFares r)\<bar> \<le> 10 ^ 9"
    "\<bar>num (amount (totalEFTPOS r))\<bar> \<le> 10 ^ 9" "\<bar>num (totalAccountTrips r)\<bar> \<le> 10 ^ 9"
    "\<bar>num (amount (cashExpenses r))\<bar> \<le> 10 ^ 9"
    by (simp_all only: amounts_def list.pred_inject simp_thms)
  note b = abs_leD [OF a(1)] abs_leD [OF a(2)] abs_leD [OF a(3)] abs_leD [OF a(4)]
    abs_leD [OF a(5)] abs_leD [OF a(6)] abs_leD [OF a(7)]
  from trips have n: "- (10 ^ 6) \<le> int_js (totalTripsCount r)" "int_js (totalTripsCount r) \<le> 10 ^ 6"
    by (rule abs_leD)+
  note u = unrounded_values [OF b n rate levy]
  show ?thesis
    unfolding calculateReportTotals_complete [OF valid] Let_def
    apply (intro exI conjI)
                     apply (rule refl)
                    apply (simp_all only: calc_result.select_convs simp_thms)
            apply (rule round2_close, rule u(1))
           apply (rule round2_close, rule u(2))
          apply (rule round2_close, rule u(3))
         apply (rule round2_close, rule u(4))
        apply (rule round2_close, rule u(5))
       apply (rule round2_close, rule u(6))
      apply (rule round2_close, rule u(7))
     apply (rule round2_sum)
        apply (rule conjunct2 [OF u(6)])
       apply (rule conjunct2 [OF u(4)])
      apply (rule conjunct2 [OF u(5)])
     apply (rule u(8))
    apply (rule round2_difference)
       apply (rule conjunct2 [OF u(7)])
      apply (rule conjunct2 [OF u(2)])
     apply (rule conjunct2 [OF u(3)])
    apply (rule u(9))
    done
qed

text \<open>
  The worked scenario of the specification: start 100.00, end 250.00,
  liftings 20, cash fares 30, 10 trips, rate 45 percent, levy 1.32.  The
  amounts 13.20 and -103.20 are the doubles next to them.
\<close>

theorem calculateReportTotals_scenario:
  "num (amount (shiftStartTotal scenarioReport)) \<le> num (amount (shiftEndTotal scenarioReport))
   \<and> list_all (\<lambda>x. \<bar>x\<bar> \<le> 10 ^ 9) (amounts scenarioReport)
   \<and> (\<exists>c. calculateReportTotals (Some scenarioReport) DEFAULT_SETTINGS False = Inr c
         \<and> shiftTotalFares c = 150 \<and> totalFareAndLiftings c = 200 \<and> rentals c = 90
         \<and> subTotal c = 90 \<and> tripLevy c = to_double (132 / 10)
         \<and> driverNetPay c = - to_double (1032 / 10)
         \<and> operatorEarnings c = 110)"
proof -
  have v: "num (amount (shiftStartTotal scenarioReport)) \<le> num (amount (shiftEndTotal scenarioReport))"
    by code_simp
  have a: "list_all (\<lambda>x. \<bar>x\<bar> \<le> 10 ^ 9) (amounts scenarioReport)"
    by code_simp
  have t: "\<bar>int_js (totalTripsCount scenarioReport)\<bar> \<le> 10 ^ 6"
    by code_simp
  have r: "0 \<le> rentalRatePercentage DEFAULT_SETTINGS" "rentalRatePercentage DEFAULT_SETTINGS \<le> 100"
    by (simp_all add: DEFAULT_SETTINGS_def)
  have l: "0 \<le> tripLevyRate DEFAULT_SETTINGS" "tripLevyRate DEFAULT_SETTINGS \<le> 1000"
    by code_simp+
  have ev: "calculateReportTotals (Some scenarioReport) DEFAULT_SETTINGS False = Inr scenarioResult"
    by code_simp
  from calculateReportTotals_formulas [OF v a t r l, of False]
  obtain c where c: "calculateReportTotals (Some scenarioReport) DEFAULT_SETTINGS False = Inr c"
    unfolding Let_def by blast
  with ev have "c = scenarioResult" by simp
  with c v a show ?thesis by (simp add: scenarioResult_def)
qed

text \<open>
  Claim C1 as stated fails: with start 0.00, end 0.10 and the default
  settings the returned fields are totalFareAndLiftings 0.10, rentals 0.05,
  subTotal 0.05, tripLevy 0.00, driverNetPay -0.04 and operatorEarnings 0.06;
  neither equation holds over them, computed exactly or in doubles.
\<close>

theorem rounded_equations_not_exact:
  "calculateReportTotals (Some tenCentReport) DEFAULT_SETTINGS False = Inr tenCentResult
   \<and> driverNetPay tenCentResult \<noteq> - (subTotal tenCentResult + tripLevy tenCentResult)
   \<and> driverNetPay tenCentResult \<noteq> - js_add (subTotal tenCentResult) (tripLevy tenCentResult)
   \<and> operatorEarnings tenCentResult \<noteq> totalFareAndLiftings tenCentResult - rentals tenCentResult
   \<and> operatorEarnings tenCentResult
        \<noteq> js_sub (totalFareAndLiftings tenCentResult) (rentals tenCentResult)"
  by code_simp

text \<open>
  The amounts are rounded as doubles, not as decimals.  With start 1000.00
  and end 1250.30 the fares are the double 250.29999999999995 and 45 percent
  of it is the double 112.63499999999998: the rentals are 112.63 and the
  earnings 137.66, where the decimals 250.30 and 112.635 would give 112.64
  and 137.67.
\<close>

lemma rounding_of_doubles:
  "calculateReportTotals (Some (draftReport (Some 1000) (Some (125030 / 100))))
     DEFAULT_SETTINGS False
   = Inr \<lparr> shiftTotalFares = to_double (2503 / 10),
             totalFareAndLiftings = to_double (2503 / 10),
             rentals = to_double (11263 / 100), subTotal = to_double (11263 / 100),
             tripLevy = 0, driverNetPay = - to_double (11263 / 100),
             operatorEarnings = to_double (13766 / 100),
             rentalRateUsed = 45, partial = False,
             breakdown = \<lparr> shiftStart = 1000, shiftEnd = to_double (125030 / 100),
               shiftDifference = js_sub (to_double (125030 / 100)) 1000,
               b_liftings = 0, b_cashFares = 0, b_totalEFTPOS = 0, b_totalAccountTrips = 0,
               b_cashExpenses = 0, b_totalTripsCount = 0 \<rparr> \<rparr>"
  by code_simp


section \<open>Partial mode\<close>

text \<open>
  Claim C2, as the code has it.  For every report whose end total is not yet
  known and whose start total is positive, \<open>calculateReportTotals\<close> called
  with \<open>allowPartial: true\<close> returns the all-zero result tagged \<open>partial: true\<close>
  and does not throw; called without that option it throws.
\<close>

theorem partial_mode_all_zero:
  assumes "amount (shiftEndTotal r) = None" and "0 < num (amount (shiftStartTotal r))"
  shows "(\<exists>c. calculateReportTotals (Some r) st True = Inr c \<and> partial c = True
            \<and> shiftTotalFares c = 0 \<and> totalFareAndLiftings c = 0 \<and> rentals c = 0
            \<and> subTotal c = 0 \<and> tripLevy c = 0 \<and> driverNetPay c = 0 \<and> operatorEarnings c = 0)
       \<and> calculateReportTotals (Some r) st False =
           Inl ''Failed to calculate report totals: Shift end total cannot be less than shift start total''"
  using assms
  by (simp add: calculateReportTotals_def canCalculateTotals_def zeroCalcs_def Let_def num_def)

theorem partial_mode_all_zero_witness:
  "amount (shiftEndTotal noEndDraft) = None \<and> 0 < num (amount (shiftStartTotal noEndDraft))
   \<and> (\<exists>c. calculateReportTotals (Some noEndDraft) DEFAULT_SETTINGS True = Inr c \<and> partial c = True
            \<and> shiftTotalFares c = 0 \<and> totalFareAndLiftings c = 0 \<and> rentals c = 0
            \<and> subTotal c = 0 \<and> tripLevy c = 0 \<and> driverNetPay c = 0 \<and> operatorEarnings c = 0)"
proof -
  have h: "amount (shiftEndTotal noEndDraft) = None" "0 < num (amount (shiftStartTotal noEndDraft))"
    by code_simp+
  from partial_mode_all_zero [OF h, of DEFAULT_SETTINGS] h show ?thesis by simp
qed

text \<open>
  Claim C2 as stated fails.  Called with no options, as every controller
  calls it, the calculation throws on a report with start total 100.00 and
  no end total.  On the path that edits a draft, \<open>updateDriverReport\<close> calls
  \<open>calculateReportTotals(report)\<close> after it has applied the body: a stored
  draft with totals 100.00 and 250.00, edited with a body that leaves the end
  amount empty, makes the calculation throw, and the request ends in the
  error handler.
\<close>

theorem draft_edit_throws:
  "amount (shiftEndTotal noEndDraft) = None
   \<and> calculateReportTotals (Some noEndDraft) DEFAULT_SETTINGS False =
      Inl ''Failed to calculate report totals: Shift end total cannot be less than shift start total''
   \<and> validateReport (draftReport (Some 100) (Some 250))
   \<and> updateDriverReport DEFAULT_SETTINGS (Some (draftReport (Some 100) (Some 250)))
        clearEndTotalUpdate =
      Inl (INTERNAL_ERROR
        ''Failed to calculate report totals: Shift end total cannot be less than shift start total'')"
  by code_simp


section \<open>Submitting a report\<close>




section \<open>Validation of the calculations\<close>

text \<open>
  Claim C8, as the code has it.  Outside partial mode the calculation
  throws whenever the end total is below the start total.  For a result
  that the calculation returns, \<open>validateCalculations\<close> accepts if and only
  if \<open>totalFareAndLiftings\<close> is not negative, \<open>rentals\<close> does not exceed
  \<open>totalFareAndLiftings\<close>, and the trip count is not negative.
\<close>

theorem validation_rejects_exactly:
  "(num (amount (shiftEndTotal r)) < num (amount (shiftStartTotal r)) \<longrightarrow>
      calculateReportTotals (Some r) st False =
        Inl ''Failed to calculate report totals: Shift end total cannot be less than shift start total'')
   \<and> (\<forall>c. calculateReportTotals (Some r) st False = Inr c \<longrightarrow>
        (isValid (validateCalculations c r) \<longleftrightarrow>
           \<not> totalFareAndLiftings c < 0
         \<and> \<not> rentals c > totalFareAndLiftings c
         \<and> \<not> (\<exists>n. totalTripsCount r = Count n \<and> n < 0)))"
proof (intro conjI allI impI)
  assume "num (amount (shiftEndTotal r)) < num (amount (shiftStartTotal r))"
  then show "calculateReportTotals (Some r) st False =
        Inl ''Failed to calculate report totals: Shift end total cannot be less than shift start total''"
    by (simp add: calculateReportTotals_def canCalculateTotals_def Let_def)
next
  fix c assume c: "calculateReportTotals (Some r) st False = Inr c"
  have valid: "num (amount (shiftStartTotal r)) \<le> num (amount (shiftEndTotal r))"
  proof (rule ccontr)
    assume "\<not> ?thesis"
    then have "\<exists>m. calculateReportTotals (Some r) st False = Inl m"
      by (simp add: calculateReportTotals_def canCalculateTotals_def Let_def)
    with c show False by auto
  qed
  from c have "shiftTotalFares c
      = round2 (js_sub (num (amount (shiftEndTotal r))) (num (amount (shiftStartTotal r))))"
    unfolding calculateReportTotals_complete [OF valid] Let_def by auto
  with valid have "0 \<le> shiftTotalFares c"
    by (simp add: round2_nonneg js_sub_def to_double_nonneg)
  then show "isValid (validateCalculations c r) \<longleftrightarrow>
           \<not> totalFareAndLiftings c < 0
         \<and> \<not> rentals c > totalFareAndLiftings c
         \<and> \<not> (\<exists>n. totalTripsCount r = Count n \<and> n < 0)"
    by (auto simp add: validateCalculations_def isValid_def split: count_field.splits)
qed

theorem validation_rejects_exactly_witness:
  "num (amount (shiftEndTotal noEndDraft)) < num (amount (shiftStartTotal noEndDraft))
   \<and> calculateReportTotals (Some noEndDraft) DEFAULT_SETTINGS False =
        Inl ''Failed to calculate report totals: Shift end total cannot be less than shift start total''
   \<and> calculateReportTotals (Some scenarioReport) DEFAULT_SETTINGS False = Inr scenarioResult
   \<and> isValid (validateCalculations scenarioResult scenarioReport)"
proof -
  have a: "num (amount (shiftEndTotal noEndDraft)) < num (amount (shiftStartTotal noEndDraft))"
    by code_simp
  have b: "calculateReportTotals (Some scenarioReport) DEFAULT_SETTINGS False = Inr scenarioResult"
    by code_simp
  have c: "\<not> totalFareAndLiftings scenarioResult < 0
         \<and> \<not> rentals scenarioResult > totalFareAndLiftings scenarioResult
         \<and> \<not> (\<exists>n. totalTripsCount scenarioReport = Count n \<and> n < 0)"
    by (simp add: scenarioResult_def scenarioReport_def draftReport_def)
  from validation_rejects_exactly [of noEndDraft DEFAULT_SETTINGS] a
  have 1: "calculateReportTotals (Some noEndDraft) DEFAULT_SETTINGS False =
        Inl ''Failed to calculate report totals: Shift end total cannot be less than shift start total''"
    by blast
  from validation_rejects_exactly [of scenarioReport DEFAULT_SETTINGS] b c
  have 2: "isValid (validateCalculations scenarioResult scenarioReport)" by blast
  from a 1 b 2 show ?thesis by blast
qed

text \<open>
  Claim C8 as stated fails: the validation has a fourth check.  With a
  rental rate of 100 percent, start and end totals 0 and liftings -10, the
  end is not below the start, \<open>rentals\<close> (-10) does not exceed
  \<open>totalFareAndLiftings\<close> (-10) and the trip count is 0, yet the
  validation rejects.
\<close>

theorem negative_total_rejected:
  "calculateReportTotals (Some negativeLiftingsReport) fullRateSettings False
     = Inr negativeLiftingsResult
   \<and> \<not> num (amount (shiftEndTotal negativeLiftingsReport))
        < num (amount (shiftStartTotal negativeLiftingsReport))
   \<and> \<not> rentals negativeLiftingsResult > totalFareAndLiftings negativeLiftingsResult
   \<and> totalTripsCount negativeLiftingsReport = Count 0
   \<and> validateCalculations negativeLiftingsResult negativeLiftingsReport
       = [''Total fare and liftings cannot be negative'']
   \<and> \<not> isValid (validateCalculations negativeLiftingsResult negativeLiftingsReport)"
  by code_simp


section \<open>Lemmas on the store\<close>

lemma andThen_Inr: "andThen m f = Inr y \<longleftrightarrow> (\<exists>x. m = Inr x \<and> f x = Inr y)"
  by (cases m) (simp_all add: andThen_def)

lemma dropRide_update_Inr:
  assumes "dropRide_update d sh body now r0 = Inr r1"
  shows "\<exists>r5 t. r1 = drop_complete d body now r5 t"
  using assms unfolding dropRide_update_def andThen_Inr by blast


lemma rides_setStatus [simp]: "rides (User_setStatus u s d) = rides d"
  by (simp add: User_setStatus_def split: option.splits)

lemma find_setStatus [simp]: "Ride_findById j (User_setStatus u s d) = Ride_findById j d"
  by (simp add: Ride_findById_def)

lemma find_update [simp]:
  "Ride_findById j (d\<lparr> rides := AList.update i r xs \<rparr>) =
     (if j = i then Some r else Ride_findById j (d\<lparr> rides := xs \<rparr>))"
  by (simp add: Ride_findById_def update_conv')

lemma find_rides_of [simp]: "Ride_findById j (d\<lparr> rides := rides d' \<rparr>) = Ride_findById j d'"
  by (simp add: Ride_findById_def)

lemma find_created [simp]:
  "Ride_findById j (d\<lparr> clientIds := cs, destinationIds := ds \<rparr>) = Ride_findById j d"
  by (simp add: Ride_findById_def)

lemma moved_simps [simp]:
  "moved a a" "moved Scheduled Assigned" "moved Assigned Accepted" "moved Assigned Rejected"
  "moved Assigned Cancelled" "moved Accepted Cancelled" "moved Started Cancelled"
  "moved Assigned Aborted" "moved Accepted Aborted" "moved Accepted Started"
  "moved Started Completed"
  by (simp_all add: moved_def transitionTable_def)


section \<open>Fare on completion\<close>

text \<open>
  Claim C3 at a failing input.  A started quick trip is completed with a fare
  of 10.007.  \<open>completeQuickTripDetails\<close> stores \<open>perPerson = 10.007\<close> and
  \<open>halfFare = 5.0035\<close> (the doubles next to them), not rounded; with the one
  client of the ride the claim asks for 10.01 and 5.00.
\<close>

theorem quick_trip_fare_not_rounded:
  "fst (completeQuickTripDetails driver10 100 quickTripBody 50 60 61 9
          (exampleDb startedQuickTrip [activeShift10])) = Success
   \<and> map_option fare (Ride_findById 100
        (snd (completeQuickTripDetails driver10 100 quickTripBody 50 60 61 9
               (exampleDb startedQuickTrip [activeShift10]))))
      = Some \<lparr> total = to_double (10007 / 1000), perPerson = to_double (10007 / 1000),
               halfFare = to_double (10007 / 1000) / 2, gst = to_double (91 / 100) \<rparr>
   \<and> map_option clients (Ride_findById 100
        (snd (completeQuickTripDetails driver10 100 quickTripBody 50 60 61 9
               (exampleDb startedQuickTrip [activeShift10]))))
      = Some [50]
   \<and> toFixed2 (js_div (to_double (10007 / 1000)) 1) = to_double (1001 / 100)
   \<and> to_double (10007 / 1000) \<noteq> to_double (1001 / 100)
   \<and> toFixed2 (js_div (to_double (10007 / 1000)) 2) = 5
   \<and> to_double (10007 / 1000) / 2 \<noteq> 5"
  by code_simp

text \<open>
  The drop endpoint does recompute the fare: a completion through \<open>dropRide\<close>
  ends with at least one client, and the stored fare has the rounded
  per-person fare, the rounded half fare and the rounded GST of the final
  total and the final number of clients.
\<close>

lemma drop_complete_fare:
  assumes "validateRide (drop_complete d body now r t)" and "getCurrentGSTRate d \<noteq> 0"
  shows "clients (drop_complete d body now r t) \<noteq> []
       \<and> status (drop_complete d body now r t) = Completed
       \<and> perPerson (fare (drop_complete d body now r t))
           = toFixed2 (js_div (total (fare (drop_complete d body now r t)))
                         (of_nat (length (clients (drop_complete d body now r t)))))
       \<and> halfFare (fare (drop_complete d body now r t))
           = toFixed2 (js_div (total (fare (drop_complete d body now r t))) 2)
       \<and> gst (fare (drop_complete d body now r t))
           = toFixed2 (js_div (perPerson (fare (drop_complete d body now r t)))
                         (getCurrentGSTRate d))"
  using assms
  by (auto simp add: drop_complete_def validateRide_def calculateGST_def Let_def)

lemma dropRide_recomputes_fare:
  assumes "fst (dropRide usr i body now d) = Success" and divisor: "getCurrentGSTRate d \<noteq> 0"
  shows "\<exists>r'. Ride_findById i (snd (dropRide usr i body now d)) = Some r'
           \<and> status r' = Completed
           \<and> clients r' \<noteq> []
           \<and> perPerson (fare r')
                = toFixed2 (js_div (total (fare r')) (of_nat (length (clients r'))))
           \<and> halfFare (fare r') = toFixed2 (js_div (total (fare r')) 2)
           \<and> gst (fare r') = toFixed2 (js_div (perPerson (fare r')) (getCurrentGSTRate d))"
proof -
  from assms(1) obtain r0 sh r1 where
    upd: "dropRide_update d sh body now r0 = Inr r1" and
    valid: "validateRide r1" and
    res: "snd (dropRide usr i body now d)
            = User_setStatus (driver r1) FREE (d\<lparr> rides := AList.update i r1 (rides d) \<rparr>)"
    by (auto simp add: dropRide_def Ride_save_def split: option.splits sum.splits if_splits)
  from upd obtain r5 t where r1: "r1 = drop_complete d body now r5 t"
    using dropRide_update_Inr by blast
  from res have "Ride_findById i (snd (dropRide usr i body now d)) = Some r1" by simp
  with valid r1 divisor drop_complete_fare [of d body now r5 t] show ?thesis by auto
qed

text \<open>
  The scenario: a fare of 100 and four clients, three of them added at
  completion, end with 25.00 per person and a half fare of 50.00.
\<close>

lemma dropRide_scenario:
  "fst (dropRide driver10 100 lateClientsBody 9 (exampleDb startedRide [activeShift10])) = Success
   \<and> map_option fare (Ride_findById 100
        (snd (dropRide driver10 100 lateClientsBody 9 (exampleDb startedRide [activeShift10]))))
      = Some \<lparr> total = 100, perPerson = 25, halfFare = 50, gst = to_double (227 / 100) \<rparr>
   \<and> map_option clients (Ride_findById 100
        (snd (dropRide driver10 100 lateClientsBody 9 (exampleDb startedRide [activeShift10]))))
      = Some [1, 2, 3, 4]"
  by code_simp


section \<open>Status transitions\<close>
































section \<open>Accepting a ride\<close>

lemma Shift_findOne_active:
  "Shift_findOne [Cond_driver u, Cond_isActive True] shs =
     find (\<lambda>sh. shiftDriver sh = u \<and> isActive sh) shs"
  by (simp add: Shift_findOne_def Shift_findOne_with_def strictQuery_def castFilter_def)

lemma hasActiveShift_find:
  "hasActiveShift u shs \<longleftrightarrow> find (\<lambda>sh. shiftDriver sh = u \<and> isActive sh) shs \<noteq> None"
  by (auto simp add: hasActiveShift_def list_ex_iff find_None_iff)

lemma find_Some_mem: "find P xs = Some x \<Longrightarrow> x \<in> set xs \<and> P x"
  by (induction xs) (auto split: if_splits)





section \<open>One active shift per driver\<close>

lemma shifts_setStatus [simp]: "shifts (User_setStatus u s d) = shifts d"
  by (simp add: User_setStatus_def split: option.splits)

lemma shifts_updateRideStatus: "shifts (snd (updateRideStatus usr i s now d)) = shifts d"
  by (simp add: updateRideStatus_def Let_def Ride_save_def split: option.split)

lemma shifts_acceptRide: "shifts (snd (acceptRide usr i now d)) = shifts d"
  by (simp add: acceptRide_def Ride_save_def split: option.split)

lemma shifts_rejectRide: "shifts (snd (rejectRide usr i now d)) = shifts d"
  by (simp add: rejectRide_def Ride_save_def split: option.split)

lemma shifts_startRide: "shifts (snd (startRide usr i now d)) = shifts d"
  by (simp add: startRide_def Let_def Ride_save_def split: option.split)

lemma shifts_dropRide: "shifts (snd (dropRide usr i body now d)) = shifts d"
  by (simp add: dropRide_def Ride_save_def split: option.split sum.split)

lemma shifts_cancelOngoingRide:
  "shifts (snd (cancelOngoingRide usr i reason nt now d)) = shifts d"
  by (simp add: cancelOngoingRide_def Ride_save_def split: option.split)

lemma shifts_abortRide: "shifts (snd (abortRide usr i reason nt now d)) = shifts d"
  by (simp add: abortRide_def Ride_save_def split: option.split)

lemma shifts_assignScheduledBooking:
  "shifts (snd (assignScheduledBooking usr i drv d)) = shifts d"
  by (simp add: assignScheduledBooking_def Ride_save_def split: option.split sum.split)

lemma shifts_reassignRide: "shifts (snd (reassignRide usr i drv d)) = shifts d"
  by (simp add: reassignRide_def Let_def Ride_save_def split: option.split sum.split)

lemma shifts_completeQuickTripDetails:
  "shifts (snd (completeQuickTripDetails usr i body c f t now d)) = shifts d"
  by (simp add: completeQuickTripDetails_def Let_def Ride_save_def
           split: option.split fare_input.split)

lemma shifts_handle: "shifts (snd (handle usr i req now d)) = shifts d"
  by (cases req)
     (simp_all add: shifts_updateRideStatus shifts_acceptRide shifts_rejectRide
        shifts_startRide shifts_dropRide shifts_cancelOngoingRide shifts_abortRide
        shifts_assignScheduledBooking shifts_completeQuickTripDetails shifts_reassignRide)

lemma shifts_createQuickTrip: "shifts (snd (createQuickTrip usr drv nr d)) = shifts d"
  by (simp add: createQuickTrip_def Let_def Ride_create_def split: option.split sum.split)

lemma shifts_createSelfAssignedRide:
  "shifts (snd (createSelfAssignedRide usr body nr nc nf nt now d)) = shifts d"
  by (simp add: createSelfAssignedRide_def Let_def Ride_create_def
           split: option.split fare_input.split)

text \<open>The store refuses a second active shift of a driver.\<close>

lemma Shift_create_invariant:
  assumes inv: "oneActiveShiftPerDriver shs" and cr: "Shift_create sh shs = Some shs'"
  shows "oneActiveShiftPerDriver shs'"
proof -
  define doc where "doc = sh\<lparr> taxiNumber := trim (taxiNumber sh),
                               startMeterPhoto := trim (startMeterPhoto sh) \<rparr>"
  from cr have app: "shs' = shs @ [doc]"
    and uniq: "\<not> (isActive doc \<and> list_ex (\<lambda>x. isActive x \<and> shiftDriver x = shiftDriver doc) shs)"
    by (auto simp add: Shift_create_def Let_def doc_def split: if_splits)
  show ?thesis
  proof (cases "isActive doc")
    case True
    with uniq have "shiftDriver doc \<notin> set (map shiftDriver (filter isActive shs))"
      by (auto simp add: list_ex_iff)
    with inv True app show ?thesis by (simp add: oneActiveShiftPerDriver_def)
  next
    case False
    with inv app show ?thesis by (simp add: oneActiveShiftPerDriver_def)
  qed
qed

lemma updateFirst_active_subset:
  "set (map shiftDriver (filter isActive (updateFirst P (\<lambda>sh. sh\<lparr> isActive := False, endTime := e \<rparr>) shs)))
     \<subseteq> set (map shiftDriver (filter isActive shs))"
  by (induction shs) auto

lemma updateFirst_end_invariant:
  "oneActiveShiftPerDriver shs \<Longrightarrow>
   oneActiveShiftPerDriver (updateFirst P (\<lambda>sh. sh\<lparr> isActive := False, endTime := e \<rparr>) shs)"
proof (induction shs)
  case Nil
  then show ?case by simp
next
  case (Cons x xs)
  then show ?case
    using updateFirst_active_subset [of P e xs]
    by (auto simp add: oneActiveShiftPerDriver_def)
qed

lemma updateFirst_photo_same:
  "map shiftDriver (filter isActive (updateFirst P (\<lambda>sh. sh\<lparr> startMeterPhoto := p \<rparr>) shs))
     = map shiftDriver (filter isActive shs)"
  by (induction shs) auto

lemma startShift_invariant:
  assumes "oneActiveShiftPerDriver (shifts d)"
  shows "oneActiveShiftPerDriver (shifts (snd (startShift usr taxi meter photo file newId now d)))"
  using assms
  by (auto simp add: startShift_def Let_def dest: Shift_create_invariant split: option.split)

lemma endShift_invariant:
  assumes "oneActiveShiftPerDriver (shifts d)"
  shows "oneActiveShiftPerDriver (shifts (snd (endShift usr sid now d)))"
  using assms
  by (simp add: endShift_def Shift_findOneAndUpdate_def updateFirst_end_invariant
           split: option.split)

lemma updateShift_invariant:
  assumes "oneActiveShiftPerDriver (shifts d)"
  shows "oneActiveShiftPerDriver (shifts (snd (updateShift usr sid photo d)))"
  using assms
  by (simp add: updateShift_def Shift_findOneAndUpdate_def oneActiveShiftPerDriver_def
           updateFirst_photo_same split: option.split)

lemma startShift_conflict:
  assumes "hasActiveShift (actorId usr) (shifts d)"
  shows "snd (startShift usr taxi meter photo file newId now d) = d
       \<and> fst (startShift usr taxi meter photo file newId now d) \<noteq> Success
       \<and> (truthy_string taxi \<and> (\<exists>m. meter = Some m \<and> 0 \<le> m) \<longrightarrow>
            fst (startShift usr taxi meter photo file newId now d)
              = Failure (NO_CODE ''You already have an active shift''))"
  using assms
  by (auto simp add: startShift_def Shift_findOne_active hasActiveShift_find truthy_string_def
           split: option.split)

text \<open>
  Claim C6.  If no driver has two active shifts, then no driver has two
  active shifts after \<open>startShift\<close>, \<open>endShift\<close> or \<open>updateShift\<close>; the requests
  on rides leave the shifts as they are; the store itself refuses an
  insertion that would give a driver a second active shift; and starting a
  shift while the driver has an active one fails and changes nothing (with
  the message \<open>You already have an active shift\<close> when the body is valid).
\<close>

theorem one_active_shift_per_driver:
  assumes "oneActiveShiftPerDriver (shifts d)"
  shows "oneActiveShiftPerDriver (shifts (snd (startShift usr taxi meter photo file newId now d)))
       \<and> oneActiveShiftPerDriver (shifts (snd (endShift usr sid now d)))
       \<and> oneActiveShiftPerDriver (shifts (snd (updateShift usr sid photo d)))
       \<and> shifts (snd (handle usr i req now d)) = shifts d
       \<and> shifts (snd (createQuickTrip usr drv nr d)) = shifts d
       \<and> shifts (snd (createSelfAssignedRide usr body nr nc nf nt now d)) = shifts d
       \<and> (\<forall>sh shs'. Shift_create sh (shifts d) = Some shs' \<longrightarrow> oneActiveShiftPerDriver shs')
       \<and> (hasActiveShift (actorId usr) (shifts d) \<longrightarrow>
             snd (startShift usr taxi meter photo file newId now d) = d
           \<and> fst (startShift usr taxi meter photo file newId now d) \<noteq> Success
           \<and> (truthy_string taxi \<and> (\<exists>m. meter = Some m \<and> 0 \<le> m) \<longrightarrow>
                fst (startShift usr taxi meter photo file newId now d)
                  = Failure (NO_CODE ''You already have an active shift'')))"
proof (intro conjI)
  show "oneActiveShiftPerDriver (shifts (snd (startShift usr taxi meter photo file newId now d)))"
    using assms by (rule startShift_invariant)
  show "oneActiveShiftPerDriver (shifts (snd (endShift usr sid now d)))"
    using assms by (rule endShift_invariant)
  show "oneActiveShiftPerDriver (shifts (snd (updateShift usr sid photo d)))"
    using assms by (rule updateShift_invariant)
  show "shifts (snd (handle usr i req now d)) = shifts d"
    by (rule shifts_handle)
  show "shifts (snd (createQuickTrip usr drv nr d)) = shifts d"
    by (rule shifts_createQuickTrip)
  show "shifts (snd (createSelfAssignedRide usr body nr nc nf nt now d)) = shifts d"
    by (rule shifts_createSelfAssignedRide)
  show "\<forall>sh shs'. Shift_create sh (shifts d) = Some shs' \<longrightarrow> oneActiveShiftPerDriver shs'"
    using assms Shift_create_invariant by blast
  show "hasActiveShift (actorId usr) (shifts d) \<longrightarrow>
             snd (startShift usr taxi meter photo file newId now d) = d
           \<and> fst (startShift usr taxi meter photo file newId now d) \<noteq> Success
           \<and> (truthy_string taxi \<and> (\<exists>m. meter = Some m \<and> 0 \<le> m) \<longrightarrow>
                fst (startShift usr taxi meter photo file newId now d)
                  = Failure (NO_CODE ''You already have an active shift''))"
    using startShift_conflict by blast
qed

text \<open>Driver 10, who has the active shift 500, starts another one.\<close>

theorem one_active_shift_per_driver_witness:
  "oneActiveShiftPerDriver (shifts (exampleDb assignedRide [activeShift10]))
   \<and> hasActiveShift (actorId driver10) (shifts (exampleDb assignedRide [activeShift10]))
   \<and> truthy_string (Some ''T2'')
   \<and> startShift driver10 (Some ''T2'') (Some 250) None None 501 9
        (exampleDb assignedRide [activeShift10])
       = (Failure (NO_CODE ''You already have an active shift''),
          exampleDb assignedRide [activeShift10])"
proof -
  have a: "oneActiveShiftPerDriver (shifts (exampleDb assignedRide [activeShift10]))"
    by (simp add: oneActiveShiftPerDriver_def exampleDb_def activeShift10_def)
  have b: "hasActiveShift (actorId driver10) (shifts (exampleDb assignedRide [activeShift10]))"
    by (simp add: hasActiveShift_def exampleDb_def activeShift10_def driver10_def)
  have c: "truthy_string (Some ''T2'')" by (simp add: truthy_string_def)
  have e: "\<exists>m. Some (250::rat) = Some m \<and> 0 \<le> m" by simp
  from one_active_shift_per_driver [OF a, of driver10 "Some ''T2''" "Some 250" None None 501 9] b c e
  have "snd (startShift driver10 (Some ''T2'') (Some 250) None None 501 9
               (exampleDb assignedRide [activeShift10])) = exampleDb assignedRide [activeShift10]
      \<and> fst (startShift driver10 (Some ''T2'') (Some 250) None None 501 9
               (exampleDb assignedRide [activeShift10]))
          = Failure (NO_CODE ''You already have an active shift'')"
    by blast
  then have "startShift driver10 (Some ''T2'') (Some 250) None None 501 9
        (exampleDb assignedRide [activeShift10])
       = (Failure (NO_CODE ''You already have an active shift''),
          exampleDb assignedRide [activeShift10])"
    by (metis prod.collapse)
  with a b c show ?thesis by blast
qed


section \<open>Reassignment\<close>
text \<open>
  Claim C9 at a failing input.  The ride 100 is assigned to driver 10, who is
  \<open>on_ride\<close>; the manager reassigns it to driver 11, who is \<open>on_ride\<close> too.
  \<open>reassignRide\<close> frees the old driver before it checks the new one: the
  request fails with \<open>DRIVER_NOT_FREE\<close>, the ride is unchanged and still
  assigned to driver 10, and driver 10 is now \<open>free\<close>.
\<close>

theorem reassign_failure_frees_old_driver:
  "Ride_findById 100 (exampleDb assignedRide []) = Some assignedRide
   \<and> map_option userStatus (map_of (users (exampleDb assignedRide [])) 10) = Some ON_RIDE
   \<and> fst (reassignRide manager1 100 (Some 11) (exampleDb assignedRide []))
        = Failure DRIVER_NOT_FREE
   \<and> Ride_findById 100 (snd (reassignRide manager1 100 (Some 11) (exampleDb assignedRide [])))
        = Some assignedRide
   \<and> map_option userStatus
        (map_of (users (snd (reassignRide manager1 100 (Some 11) (exampleDb assignedRide [])))) 10)
        = Some FREE
   \<and> snd (reassignRide manager1 100 (Some 11) (exampleDb assignedRide []))
        \<noteq> exampleDb assignedRide []"
  by code_simp

text \<open>A reassignment that fails leaves every ride document as it was.\<close>

lemma reassignRide_keeps_ride_on_failure:
  assumes "Ride_findById j d = Some r"
  shows "fst (reassignRide usr i drv d) \<noteq> Success \<longrightarrow>
           Ride_findById j (snd (reassignRide usr i drv d)) = Some r"
  using assms
  by (simp add: reassignRide_def Let_def Ride_save_def split: option.split sum.split)



section \<open>The shift lookup by status\<close>

lemma Shift_findOne_status:
  "Shift_findOne [Cond_driver u, Cond_status s] shs = find (\<lambda>sh. shiftDriver sh = u) shs"
  by (simp add: Shift_findOne_def Shift_findOne_with_def strictQuery_def castFilter_def)

lemma Shift_findOne_status_not_strict:
  "Shift_findOne_with False [Cond_driver u, Cond_status s] shs = None"
  by (simp add: Shift_findOne_with_def castFilter_def find_None_iff)

lemma startShift_success_shift:
  assumes "fst (startShift usr taxi meter photo upload newId now d) = Success"
  shows "\<exists>sh \<in> set (shifts (snd (startShift usr taxi meter photo upload newId now d))).
           shiftDriver sh = actorId usr \<and> isActive sh"
  using assms
  by (auto simp add: startShift_def Shift_create_def Let_def split: option.splits if_splits)

lemma find_after_create:
  assumes "Ride_create i r d = Some d'"
  shows "Ride_findById i d' = Some r"
proof -
  from assms have d': "d' = d\<lparr> rides := rides d @ [(i, r)] \<rparr>"
    and fresh: "i \<notin> fst ` set (rides d)"
    by (auto simp add: Ride_create_def split: if_splits)
  from fresh have "map_of (rides d) i = None" by (simp add: map_of_eq_None_iff)
  with d' show ?thesis by (simp add: Ride_findById_def map_add_def)
qed

text \<open>
  Claim C10, as the code has it.  With \<open>strictQuery\<close> enabled the condition on
  \<open>status\<close> is removed from the filter, and the lookup of \<open>createQuickTrip\<close> and
  \<open>createSelfAssignedRide\<close> returns the first stored shift of the driver,
  active or ended (without \<open>strictQuery\<close> it would return none).  So
  \<open>createSelfAssignedRide\<close> answers \<open>NO_ACTIVE_SHIFT\<close> exactly when the actor is
  a driver without any shift; after a successful \<open>startShift\<close> it does not
  answer \<open>NO_ACTIVE_SHIFT\<close>; and a quick trip is created with a reference to
  the first stored shift of its driver, if there is one.
\<close>

theorem status_filter_is_dropped:
  "Shift_findOne [Cond_driver u, Cond_status ''active''] shs
     = find (\<lambda>sh. shiftDriver sh = u) shs
   \<and> Shift_findOne_with False [Cond_driver u, Cond_status ''active''] shs = None
   \<and> (fst (createSelfAssignedRide usr body nr nc nf nt now d) = Failure NO_ACTIVE_SHIFT
        \<longleftrightarrow> actorRole usr = DRIVER \<and> \<not> list_ex (\<lambda>sh. shiftDriver sh = actorId usr) (shifts d))
   \<and> (fst (startShift usr taxi meter photo upload newId now0 d) = Success \<longrightarrow>
        fst (createSelfAssignedRide usr body nr nc nf nt now
               (snd (startShift usr taxi meter photo upload newId now0 d)))
          \<noteq> Failure NO_ACTIVE_SHIFT)
   \<and> (fst (createQuickTrip usr drv nr d) = Success \<longrightarrow>
        map_option shift (Ride_findById nr (snd (createQuickTrip usr drv nr d)))
          = Some (map_option shiftId (find (\<lambda>sh. shiftDriver sh = drv) (shifts d))))"
proof (intro conjI)
  show "Shift_findOne [Cond_driver u, Cond_status ''active''] shs
     = find (\<lambda>sh. shiftDriver sh = u) shs"
    by (rule Shift_findOne_status)
  show "Shift_findOne_with False [Cond_driver u, Cond_status ''active''] shs = None"
    by (rule Shift_findOne_status_not_strict)
  show sa: "\<And>d. fst (createSelfAssignedRide usr body nr nc nf nt now d) = Failure NO_ACTIVE_SHIFT
        \<longleftrightarrow> actorRole usr = DRIVER \<and> \<not> list_ex (\<lambda>sh. shiftDriver sh = actorId usr) (shifts d)"
    by (auto simp add: createSelfAssignedRide_def Shift_findOne_status Let_def list_ex_iff
          find_None_iff dest: find_Some_mem split: option.splits fare_input.splits)
  show "fst (startShift usr taxi meter photo upload newId now0 d) = Success \<longrightarrow>
        fst (createSelfAssignedRide usr body nr nc nf nt now
               (snd (startShift usr taxi meter photo upload newId now0 d)))
          \<noteq> Failure NO_ACTIVE_SHIFT"
    using startShift_success_shift [of usr taxi meter photo upload newId now0 d]
    by (auto simp add: sa list_ex_iff)
  show "fst (createQuickTrip usr drv nr d) = Success \<longrightarrow>
        map_option shift (Ride_findById nr (snd (createQuickTrip usr drv nr d)))
          = Some (map_option shiftId (find (\<lambda>sh. shiftDriver sh = drv) (shifts d)))"
    by (auto simp add: createQuickTrip_def Shift_findOne_status Let_def
          dest!: find_after_create split: option.splits sum.splits)
qed

text \<open>
  Claim C10 as stated fails: driver 12 starts a shift; the lookup with the
  filter \<open>{ driver, status: "active" }\<close> returns that shift, the self-assigned
  ride is created, and a quick trip for driver 12 refers to the shift.
\<close>

theorem lookup_matches_started_shift:
  "fst (startShift driver12 (Some ''T7'') (Some 100) None None 501 5 (exampleDb assignedRide []))
     = Success
   \<and> shifts (snd (startShift driver12 (Some ''T7'') (Some 100) None None 501 5
                    (exampleDb assignedRide [])))
     = [\<lparr> shiftId = 501, shiftDriver = 12, taxiNumber = ''T7'', startMeter = 100,
         startMeterPhoto = ''pending'', startTime = 5, endTime = None, isActive = True \<rparr>]
   \<and> Shift_findOne [Cond_driver 12, Cond_status ''active'']
        (shifts (snd (startShift driver12 (Some ''T7'') (Some 100) None None 501 5
                       (exampleDb assignedRide []))))
     = Some \<lparr> shiftId = 501, shiftDriver = 12, taxiNumber = ''T7'', startMeter = 100,
         startMeterPhoto = ''pending'', startTime = 5, endTime = None, isActive = True \<rparr>
   \<and> fst (createSelfAssignedRide driver12 selfAssignedBody 101 50 60 61 9
            (snd (startShift driver12 (Some ''T7'') (Some 100) None None 501 5
                    (exampleDb assignedRide []))))
     = Success
   \<and> map_option shift (Ride_findById 102
        (snd (createQuickTrip manager1 12 102
            (snd (startShift driver12 (Some ''T7'') (Some 100) None None 501 5
                    (exampleDb assignedRide []))))))
     = Some (Some 501)"
  by code_simp

text \<open>Driver 12 has no shift; the only stored shift belongs to driver 10.\<close>

theorem status_filter_is_dropped_witness:
  "fst (createQuickTrip manager1 12 102 (exampleDb assignedRide [activeShift10])) = Success
   \<and> map_option shift (Ride_findById 102
        (snd (createQuickTrip manager1 12 102 (exampleDb assignedRide [activeShift10]))))
       = Some None
   \<and> fst (createSelfAssignedRide driver12 selfAssignedBody 101 50 60 61 9
            (exampleDb assignedRide [activeShift10]))
       = Failure NO_ACTIVE_SHIFT"
proof -
  have a: "fst (createQuickTrip manager1 12 102 (exampleDb assignedRide [activeShift10])) = Success"
    by code_simp
  have b: "find (\<lambda>sh. shiftDriver sh = 12) (shifts (exampleDb assignedRide [activeShift10])) = None"
    by (simp add: exampleDb_def activeShift10_def)
  have c: "actorRole driver12 = DRIVER
     \<and> \<not> list_ex (\<lambda>sh. shiftDriver sh = actorId driver12)
            (shifts (exampleDb assignedRide [activeShift10]))"
    by (simp add: exampleDb_def activeShift10_def driver12_def)
  from status_filter_is_dropped [of _ _ manager1 _ 102 _ _ _ _ "exampleDb assignedRide [activeShift10]" _ _ _ _ _ _ 12] a b
  have 1: "map_option shift (Ride_findById 102
        (snd (createQuickTrip manager1 12 102 (exampleDb assignedRide [activeShift10]))))
       = Some None"
    by simp
  from status_filter_is_dropped [of _ _ driver12 selfAssignedBody 101 50 60 61 9
                   "exampleDb assignedRide [activeShift10]"] c
  have 2: "fst (createSelfAssignedRide driver12 selfAssignedBody 101 50 60 61 9
            (exampleDb assignedRide [activeShift10])) = Failure NO_ACTIVE_SHIFT"
    by blast
  from a 1 2 show ?thesis by blast
qed

end
